theory Spec2Isabelle
  imports Complex_Main "HOL-Library.AList"
begin

section \<open>JavaScript values and string helpers\<close>

text \<open>
  A request body after \<^verbatim>\<open>req.json()\<close> is an arbitrary JSON value. An object is kept
  as the list of its members in parse order; when a key occurs twice the later member
  wins, as in \<^verbatim>\<open>JSON.parse\<close> and in an object literal with a spread. A JSON number is
  carried as a rational: the server only tests a number for truthiness (false exactly
  at zero) and hands it on.
\<close>

datatype json =
    JNull
  | JBool bool
  | JNum rat
  | JStr string
  | JArr "json list"
  | JObj "(string \<times> json) list"

text \<open>A JavaScript value that may be \<^verbatim>\<open>undefined\<close>: \<open>None\<close> is \<^verbatim>\<open>undefined\<close>.\<close>

type_synonym jsval = "json option"

text \<open>Truthiness, as \<^verbatim>\<open>!x\<close> and \<^verbatim>\<open>x || y\<close> test it.\<close>

fun truthy :: "jsval \<Rightarrow> bool" where
  "truthy None = False"
| "truthy (Some JNull) = False"
| "truthy (Some (JBool b)) = b"
| "truthy (Some (JNum n)) = (n \<noteq> 0)"
| "truthy (Some (JStr s)) = (s \<noteq> [])"
| "truthy (Some (JArr xs)) = True"
| "truthy (Some (JObj kvs)) = True"

text \<open>\<^verbatim>\<open>x || d\<close> where the default \<open>d\<close> is a defined value.\<close>

definition or_else :: "jsval \<Rightarrow> json \<Rightarrow> json" where
  "or_else x d = (case x of None \<Rightarrow> d | Some v \<Rightarrow> (if truthy x then v else d))"

text \<open>Reading member \<open>k\<close> of an object given by its member list.\<close>

definition obj_member :: "(string \<times> json) list \<Rightarrow> string \<Rightarrow> jsval" where
  "obj_member kvs k = map_of (rev kvs) k"

text \<open>
  \<^verbatim>\<open>v.k\<close> for a JSON value \<open>v\<close> and one of the keys the server reads (\<^verbatim>\<open>name\<close>,
  \<^verbatim>\<open>password\<close>, \<^verbatim>\<open>profile_picture_url\<close>, \<^verbatim>\<open>body\<close>): on \<^verbatim>\<open>null\<close> the read throws a
  TypeError (\<open>Inl\<close>, with the engine's message for that key); on a boolean, number,
  string or array none of these keys exists, so the read gives \<^verbatim>\<open>undefined\<close>.
\<close>

fun get_prop :: "(string \<Rightarrow> string) \<Rightarrow> json \<Rightarrow> string \<Rightarrow> string + jsval" where
  "get_prop tmsg JNull k = Inl (tmsg k)"
| "get_prop tmsg (JObj kvs) k = Inr (obj_member kvs k)"
| "get_prop tmsg v k = Inr None"

text \<open>Decimal numeral of a natural number, for the index keys of a spread array or string.\<close>

fun digits :: "nat \<Rightarrow> string" where
  "digits n = (if n < 10 then [char_of (48 + n)] else digits (n div 10) @ [char_of (48 + n mod 10)])"

declare digits.simps [simp del]

text \<open>
  The own enumerable members that \<^verbatim>\<open>{ ...v }\<close> copies: the members of an object, the
  indexed elements of an array, the indexed characters of a string, nothing otherwise.
\<close>

fun spread :: "json \<Rightarrow> (string \<times> json) list" where
  "spread (JObj kvs) = kvs"
| "spread (JArr xs) = map (\<lambda>i. (digits i, xs ! i)) [0..<length xs]"
| "spread (JStr s) = map (\<lambda>i. (digits i, JStr [s ! i])) [0..<length s]"
| "spread v = []"

text \<open>\<^verbatim>\<open>s.startsWith(p)\<close>.\<close>

definition startsWith :: "string \<Rightarrow> string \<Rightarrow> bool" where
  "startsWith s p = (take (length p) s = p)"

text \<open>\<^verbatim>\<open>s.includes(p)\<close>.\<close>

fun js_includes :: "string \<Rightarrow> string \<Rightarrow> bool" where
  "js_includes [] p = (p = [])"
| "js_includes (c # cs) p = (startsWith (c # cs) p \<or> js_includes cs p)"

text \<open>\<^verbatim>\<open>s.replace(p, r)\<close> with a string pattern: only the first occurrence is replaced.\<close>

fun replace :: "string \<Rightarrow> string \<Rightarrow> string \<Rightarrow> string" where
  "replace [] p r = (if p = [] then r else [])"
| "replace (c # cs) p r =
     (if startsWith (c # cs) p then r @ drop (length p) (c # cs) else c # replace cs p r)"

text \<open>\<^verbatim>\<open>s.split(sep)\<close> for a one-character separator.\<close>

fun js_split :: "string \<Rightarrow> char \<Rightarrow> string list" where
  "js_split [] sep = [[]]"
| "js_split (c # cs) sep =
     (if c = sep then [] # js_split cs sep
      else (case js_split cs sep of [] \<Rightarrow> [[c]] | p # ps \<Rightarrow> (c # p) # ps))"

text \<open>\<^verbatim>\<open>xs[i]\<close>: \<^verbatim>\<open>undefined\<close> out of range.\<close>

definition at_index :: "'a list \<Rightarrow> nat \<Rightarrow> 'a option" where
  "at_index xs i = (if i < length xs then Some (xs ! i) else None)"

section \<open>Responses (server.ts, createResponse)\<close>

datatype content = NoBody | Text string | Stringified json

record response =
  status :: nat
  headers :: "(string \<times> string) list"
  body :: content

text \<open>
  The argument of \<^verbatim>\<open>createResponse\<close> is a string, an object (serialised with
  \<^verbatim>\<open>JSON.stringify\<close>), or \<^verbatim>\<open>undefined\<close> when a query result had no first row.
\<close>

datatype body_arg = Str string | Obj json | Undefined

definition createResponse :: "body_arg \<Rightarrow> nat \<Rightarrow> response" where
  "createResponse b st =
     \<lparr> status = st,
       headers =
         [(''Content-Type'', (case b of Str s \<Rightarrow> ''text/plain'' | _ \<Rightarrow> ''application/json'')),
          (''Access-Control-Allow-Origin'', ''*'')],
       body = (case b of Str s \<Rightarrow> Text s | Obj j \<Rightarrow> Stringified j | Undefined \<Rightarrow> NoBody) \<rparr>"

section \<open>The session registry (server.ts, tokenStore, verifyToken, sweep)\<close>

record session =
  userId :: int
  expiry :: int

text \<open>
  \<^verbatim>\<open>Map<string, {userId, expiry}>\<close> as an association list in insertion order:
  \<^verbatim>\<open>get\<close> is \<^const>\<open>map_of\<close>, \<^verbatim>\<open>set\<close> is \<^const>\<open>AList.update\<close>, \<^verbatim>\<open>delete\<close> is
  \<^const>\<open>AList.delete\<close>. A JavaScript Map holds each key once.
\<close>

type_synonym tokenStore = "(string \<times> session) list"

definition wf_store :: "tokenStore \<Rightarrow> bool" where
  "wf_store ts = distinct (map fst ts)"

text \<open>
  \<open>verifyToken\<close> reads the Authorization header (\<open>None\<close> when the request has none) and
  the clock, and returns the rejection response (\<open>Inl\<close>) or the user id (\<open>Inr\<close>) with the
  registry as it leaves it.
\<close>

definition verifyToken :: "int \<Rightarrow> string option \<Rightarrow> tokenStore \<Rightarrow> (response + int) \<times> tokenStore" where
  "verifyToken now authHeader ts =
     (case authHeader of
        None \<Rightarrow> (Inl (createResponse (Str ''Missing or invalid Authorization header'') 401), ts)
      | Some h \<Rightarrow>
          if h = [] \<or> \<not> startsWith h ''Bearer '' then
            (Inl (createResponse (Str ''Missing or invalid Authorization header'') 401), ts)
          else
            let token = replace h ''Bearer '' [] in
            (case map_of ts token of
               None \<Rightarrow> (Inl (createResponse (Str ''Invalid token'') 401), ts)
             | Some tokenData \<Rightarrow>
                 if expiry tokenData < now then
                   (Inl (createResponse (Str ''Token expired'') 401), AList.delete token ts)
                 else (Inr (userId tokenData), ts)))"

text \<open>
  The periodic sweep: one pass over the entries, deleting each whose expiry is before
  \<open>now\<close>. The loop visits the entries present when it starts; deleting the entry being
  visited does not disturb the iteration of a Map.
\<close>

fun sweep_loop :: "int \<Rightarrow> (string \<times> session) list \<Rightarrow> tokenStore \<Rightarrow> tokenStore" where
  "sweep_loop now [] ts = ts"
| "sweep_loop now ((token, data) # rest) ts =
     sweep_loop now rest (if expiry data < now then AList.delete token ts else ts)"

definition sweep :: "int \<Rightarrow> tokenStore \<Rightarrow> tokenStore" where
  "sweep now ts = sweep_loop now ts ts"

section \<open>The data store (db.ts)\<close>

text \<open>A row of table \<^verbatim>\<open>users\<close> as the queries select it (types.ts, User).\<close>

record user =
  id' :: int
  name :: string
  profile_picture_url :: string

definition user_json :: "user \<Rightarrow> json" where
  "user_json u =
     JObj [(''id'', JNum (of_int (id' u))), (''name'', JStr (name u)),
           (''profile_picture_url'', JStr (profile_picture_url u))]"

text \<open>
  The values of the INSERT of \<open>addMessage\<close>, in column order. \<open>ins_attachments\<close> is the
  value that the statement serialises with \<^verbatim>\<open>JSON.stringify\<close>.
\<close>

record insert_values =
  ins_body :: jsval
  ins_user_id :: jsval
  ins_attachments :: json
  ins_in_reply_to :: json
  ins_channel :: json

text \<open>A row of \<^verbatim>\<open>SELECT DISTINCT channel FROM messages\<close>.\<close>

record channel_row =
  channel :: string

text \<open>The SQL statements of db.ts with their parameters.\<close>

datatype query =
    SelectUser jsval jsval
  | SelectUsers
  | UpdateUser int jsval jsval
  | SelectMessages
  | SelectMessagesByChannel string
  | InsertMessage insert_values
  | SelectChannels

text \<open>
  What the handler takes from outside: the clock (\<^verbatim>\<open>Date.now()\<close>, read at most once
  per request), the next \<^verbatim>\<open>crypto.randomUUID()\<close>, the engine's TypeError message for
  a property read on \<^verbatim>\<open>null\<close>, \<^verbatim>\<open>decodeURIComponent\<close> (\<open>None\<close> when it throws), and the
  database client \<^verbatim>\<open>sql\<close> at the three row types the queries return (\<open>Inl m\<close> when the
  query throws an error with message \<open>m\<close>). Message rows are passed on as they come.
\<close>

record env =
  date_now :: int
  randomUUID :: string
  typeErrorMessage :: "string \<Rightarrow> string"
  decodeURIComponent :: "string \<Rightarrow> string option"
  sql_users :: "query \<Rightarrow> string + user list"
  sql_messages :: "query \<Rightarrow> string + json list"
  sql_channels :: "query \<Rightarrow> string + channel_row list"

text \<open>
  Each function of db.ts returns its result (\<open>Inl m\<close> when it throws an error with
  message \<open>m\<close>) and the statements it sent.
\<close>

definition validateUser :: "env \<Rightarrow> jsval \<Rightarrow> jsval \<Rightarrow> user option \<times> query list" where
  "validateUser e nm pw =
     (let q = SelectUser nm pw in
      (case sql_users e q of
         Inl m \<Rightarrow> None
       | Inr result \<Rightarrow> (case result of [] \<Rightarrow> None | u # _ \<Rightarrow> Some u),
       [q]))"

definition getUsers :: "env \<Rightarrow> (string + user list) \<times> query list" where
  "getUsers e =
     ((case sql_users e SelectUsers of Inl m \<Rightarrow> Inl m | Inr result \<Rightarrow> Inr result),
      [SelectUsers])"

definition updateUser :: "env \<Rightarrow> int \<Rightarrow> json \<Rightarrow> (string + user) \<times> query list" where
  "updateUser e i updates =
     (case get_prop (typeErrorMessage e) updates ''name'' of
        Inl m \<Rightarrow> (Inl m, [])
      | Inr nm \<Rightarrow>
          (case get_prop (typeErrorMessage e) updates ''profile_picture_url'' of
             Inl m \<Rightarrow> (Inl m, [])
           | Inr url \<Rightarrow>
               let q = UpdateUser i nm url;
                   attempt =
                     (case sql_users e q of
                        Inl m \<Rightarrow> Inl m
                      | Inr result \<Rightarrow>
                          (case result of [] \<Rightarrow> Inl ''User not found'' | u # _ \<Rightarrow> Inr u))
               in ((case attempt of
                      Inl m \<Rightarrow>
                        if js_includes m ''User not found'' then Inl m
                        else Inl ''Server error updating user''
                    | Inr u \<Rightarrow> Inr u),
                   [q])))"

definition getMessages :: "env \<Rightarrow> (string + json list) \<times> query list" where
  "getMessages e =
     ((case sql_messages e SelectMessages of Inl m \<Rightarrow> Inl m | Inr result \<Rightarrow> Inr result),
      [SelectMessages])"

definition getMessagesByChannel :: "env \<Rightarrow> string \<Rightarrow> (string + json list) \<times> query list" where
  "getMessagesByChannel e ch =
     ((case sql_messages e (SelectMessagesByChannel ch) of
         Inl m \<Rightarrow> Inl m
       | Inr result \<Rightarrow> Inr result),
      [SelectMessagesByChannel ch])"

text \<open>\<open>addMessage\<close> takes the message object as its member list.\<close>

definition addMessage :: "env \<Rightarrow> (string \<times> json) list \<Rightarrow> (string + jsval) \<times> query list" where
  "addMessage e message =
     (let q = InsertMessage
                \<lparr> ins_body = obj_member message ''body'',
                  ins_user_id = obj_member message ''user_id'',
                  ins_attachments = or_else (obj_member message ''attachments'') (JArr []),
                  ins_in_reply_to = or_else (obj_member message ''in_reply_to'') JNull,
                  ins_channel = or_else (obj_member message ''channel'') (JStr ''general'') \<rparr>
      in ((case sql_messages e q of
             Inl m \<Rightarrow> Inl m
           | Inr result \<Rightarrow> Inr (at_index result 0)),
          [q]))"

definition getChannels :: "env \<Rightarrow> (string + string list) \<times> query list" where
  "getChannels e =
     ((case sql_channels e SelectChannels of
         Inl m \<Rightarrow> Inl m
       | Inr result \<Rightarrow> Inr (map (\<lambda>row. channel row) result)),
      [SelectChannels])"

section \<open>The request handler (server.ts, handler)\<close>

text \<open>
  A request as the handler reads it: \<^verbatim>\<open>req.method\<close>, \<^verbatim>\<open>new URL(req.url).pathname\<close>,
  \<^verbatim>\<open>req.headers.get("Authorization")\<close> (\<open>None\<close> when absent) and the outcome of
  \<^verbatim>\<open>req.json()\<close> (\<open>Inl m\<close> when it rejects with an error of message \<open>m\<close>).
\<close>

record request =
  req_method :: string
  pathname :: string
  authorization :: "string option"
  payload :: "string + json"

text \<open>
  The handler returns the response, the session registry as it leaves it, and the
  statements sent to the database.
\<close>

type_synonym outcome = "response \<times> tokenStore \<times> query list"

definition response_of :: "outcome \<Rightarrow> response" where
  "response_of out = fst out"

definition store_of :: "outcome \<Rightarrow> tokenStore" where
  "store_of out = fst (snd out)"

definition queries_of :: "outcome \<Rightarrow> query list" where
  "queries_of out = snd (snd out)"

text \<open>The value of a response header, by name.\<close>

definition header_value :: "response \<Rightarrow> string \<Rightarrow> string option" where
  "header_value r h = map_of (headers r) h"

text \<open>\<^verbatim>\<open>(error as Error).message || "Server error"\<close>.\<close>

definition message_or :: "string \<Rightarrow> string \<Rightarrow> string" where
  "message_or m d = (if m = [] then d else m)"

definition route_options :: "tokenStore \<Rightarrow> outcome" where
  "route_options ts =
     (\<lparr> status = 204,
        headers =
          [(''Access-Control-Allow-Origin'', ''*''),
           (''Access-Control-Allow-Methods'', ''GET, POST, OPTIONS''),
           (''Access-Control-Allow-Headers'', ''Authorization, Content-Type'')],
        body = NoBody \<rparr>,
      ts, [])"

definition route_login :: "env \<Rightarrow> request \<Rightarrow> tokenStore \<Rightarrow> outcome" where
  "route_login e req ts =
     (case payload req of
        Inl m \<Rightarrow> (createResponse (Str (message_or m ''Server error'')) 500, ts, [])
      | Inr j \<Rightarrow>
          (case get_prop (typeErrorMessage e) j ''name'' of
             Inl m \<Rightarrow> (createResponse (Str (message_or m ''Server error'')) 500, ts, [])
           | Inr nm \<Rightarrow>
               (case get_prop (typeErrorMessage e) j ''password'' of
                  Inl m \<Rightarrow> (createResponse (Str (message_or m ''Server error'')) 500, ts, [])
                | Inr pw \<Rightarrow>
                    if \<not> truthy nm \<or> \<not> truthy pw then
                      (createResponse (Str ''Missing name or password'') 400, ts, [])
                    else
                      (case validateUser e nm pw of
                         (None, qs) \<Rightarrow> (createResponse (Str ''Invalid credentials'') 401, ts, qs)
                       | (Some u, qs) \<Rightarrow>
                           let token = randomUUID e;
                               exp = date_now e + 10 * 60 * 1000
                           in (createResponse
                                 (Obj (JObj [(''token'', JStr token),
                                             (''user_id'', JNum (of_int (id' u))),
                                             (''expiry'', JNum (of_int exp))])) 200,
                               AList.update token \<lparr> userId = id' u, expiry = exp \<rparr> ts,
                               qs)))))"

definition route_get_users :: "env \<Rightarrow> tokenStore \<Rightarrow> outcome" where
  "route_get_users e ts =
     (case getUsers e of
        (Inl m, qs) \<Rightarrow> (createResponse (Str ''Server error retrieving users'') 500, ts, qs)
      | (Inr users, qs) \<Rightarrow> (createResponse (Obj (JArr (map user_json users))) 200, ts, qs))"

definition route_post_users :: "env \<Rightarrow> request \<Rightarrow> tokenStore \<Rightarrow> outcome" where
  "route_post_users e req ts =
     (case verifyToken (date_now e) (authorization req) ts of
        (Inl rejection, ts') \<Rightarrow> (rejection, ts', [])
      | (Inr uid, ts') \<Rightarrow>
          let (r, qs) =
                (case payload req of
                   Inl m \<Rightarrow> (Inl m, [])
                 | Inr b \<Rightarrow>
                     (case get_prop (typeErrorMessage e) b ''name'' of
                        Inl m \<Rightarrow> (Inl m, [])
                      | Inr nm \<Rightarrow>
                          (case get_prop (typeErrorMessage e) b ''profile_picture_url'' of
                             Inl m \<Rightarrow> (Inl m, [])
                           | Inr url \<Rightarrow>
                               if \<not> truthy nm \<or> \<not> truthy url then
                                 (Inr (createResponse (Str ''Missing name or profile_picture_url'') 400), [])
                               else
                                 (case updateUser e uid b of
                                    (Inl m, qs) \<Rightarrow> (Inl m, qs)
                                  | (Inr u, qs) \<Rightarrow>
                                      (Inr (createResponse (Obj (user_json u)) 200), qs)))))
          in ((case r of
                 Inl m \<Rightarrow>
                   createResponse
                     (Str (if m = ''User not found'' then ''User not found'' else ''Server error''))
                     (if m = ''User not found'' then 404 else 500)
               | Inr resp \<Rightarrow> resp),
              ts', qs))"

definition route_get_messages :: "env \<Rightarrow> tokenStore \<Rightarrow> outcome" where
  "route_get_messages e ts =
     (case getMessages e of
        (Inl m, qs) \<Rightarrow> (createResponse (Str ''Server error retrieving messages'') 500, ts, qs)
      | (Inr messages, qs) \<Rightarrow> (createResponse (Obj (JArr messages)) 200, ts, qs))"

definition route_get_channel_messages :: "env \<Rightarrow> request \<Rightarrow> tokenStore \<Rightarrow> outcome" where
  "route_get_channel_messages e req ts =
     (case at_index (js_split (pathname req) CHR ''/'') 3 of
        None \<Rightarrow> (createResponse (Str ''Channel not specified'') 400, ts, [])
      | Some ch \<Rightarrow>
          if ch = [] then (createResponse (Str ''Channel not specified'') 400, ts, [])
          else
            (case decodeURIComponent e ch of
               None \<Rightarrow>
                 (createResponse (Str ''Server error retrieving channel messages'') 500, ts, [])
             | Some decoded \<Rightarrow>
                 (case getMessagesByChannel e decoded of
                    (Inl m, qs) \<Rightarrow>
                      (createResponse (Str ''Server error retrieving channel messages'') 500, ts, qs)
                  | (Inr messages, qs) \<Rightarrow>
                      (createResponse (Obj (JArr messages)) 200, ts, qs))))"

definition route_post_messages :: "env \<Rightarrow> request \<Rightarrow> tokenStore \<Rightarrow> outcome" where
  "route_post_messages e req ts =
     (case verifyToken (date_now e) (authorization req) ts of
        (Inl rejection, ts') \<Rightarrow> (rejection, ts', [])
      | (Inr uid, ts') \<Rightarrow>
          (case payload req of
             Inl m \<Rightarrow> (createResponse (Str (message_or m ''Server error'')) 500, ts', [])
           | Inr b \<Rightarrow>
               (case get_prop (typeErrorMessage e) b ''body'' of
                  Inl m \<Rightarrow> (createResponse (Str (message_or m ''Server error'')) 500, ts', [])
                | Inr v \<Rightarrow>
                    if \<not> truthy v then (createResponse (Str ''Missing body'') 400, ts', [])
                    else
                      (case addMessage e (spread b @ [(''user_id'', JNum (of_int uid))]) of
                         (Inl m, qs) \<Rightarrow>
                           (createResponse (Str (message_or m ''Server error'')) 500, ts', qs)
                       | (Inr None, qs) \<Rightarrow> (createResponse Undefined 201, ts', qs)
                       | (Inr (Some message), qs) \<Rightarrow>
                           (createResponse (Obj message) 201, ts', qs)))))"

definition route_get_channels :: "env \<Rightarrow> tokenStore \<Rightarrow> outcome" where
  "route_get_channels e ts =
     (case getChannels e of
        (Inl m, qs) \<Rightarrow> (createResponse (Str ''Server error retrieving channels'') 500, ts, qs)
      | (Inr channels, qs) \<Rightarrow> (createResponse (Obj (JArr (map JStr channels))) 200, ts, qs))"

definition route_root :: "tokenStore \<Rightarrow> outcome" where
  "route_root ts =
     (createResponse
        (Obj (JObj [(''status'', JStr ''OK''),
                    (''message'', JStr ''Welcome to the Chat Server API''),
                    (''version'', JStr ''1.0.0'')])) 200,
      ts, [])"

text \<open>The chain of route tests, in the order of the source; the first that holds answers.\<close>

definition handler :: "env \<Rightarrow> request \<Rightarrow> tokenStore \<Rightarrow> outcome" where
  "handler e req ts =
     (let path = pathname req in
      if req_method req = ''OPTIONS'' then route_options ts
      else if req_method req = ''POST'' \<and> path = ''/auth/login'' then route_login e req ts
      else if req_method req = ''GET'' \<and> path = ''/users'' then route_get_users e ts
      else if req_method req = ''POST'' \<and> path = ''/users'' then route_post_users e req ts
      else if req_method req = ''GET'' \<and> path = ''/messages'' then route_get_messages e ts
      else if req_method req = ''GET'' \<and> startsWith path ''/messages/channel/'' then
        route_get_channel_messages e req ts
      else if req_method req = ''POST'' \<and> path = ''/messages'' then route_post_messages e req ts
      else if req_method req = ''GET'' \<and> path = ''/channels'' then route_get_channels e ts
      else if req_method req = ''GET'' \<and> path = ''/'' then route_root ts
      else (createResponse (Str ''Not found'') 404, ts, []))"

section \<open>The earlier variant of the server (src/unnamed/part_001)\<close>

text \<open>
  The repository also holds an earlier variant of server.ts. It has the same registry and
  the same database calls, and differs in these places: error responses are built with
  \<^verbatim>\<open>new Response(text, { status })\<close> and so carry no cross-origin header, a login
  token lives one hour, the message object handed to \<open>addMessage\<close> is built from
  \<^verbatim>\<open>body\<close>, \<^verbatim>\<open>channel\<close> and the caller's id only, and there is no preflight route, no root
  route and no sweep; a routing miss answers 400. It is modelled here so that the
  differences can be stated; the theorems on the claims are about server.ts.
\<close>

text \<open>
  \<^verbatim>\<open>new Response(text, { status })\<close>: the code sets no header; for a text body the
  runtime adds the content type of plain text.
\<close>

definition plain_response :: "string \<Rightarrow> nat \<Rightarrow> response" where
  "plain_response s st =
     \<lparr> status = st, headers = [(''Content-Type'', ''text/plain;charset=UTF-8'')], body = Text s \<rparr>"

definition verifyToken_earlier ::
    "int \<Rightarrow> string option \<Rightarrow> tokenStore \<Rightarrow> (response + int) \<times> tokenStore" where
  "verifyToken_earlier now authHeader ts =
     (case authHeader of
        None \<Rightarrow> (Inl (plain_response ''Missing or invalid Authorization header'' 401), ts)
      | Some h \<Rightarrow>
          if h = [] \<or> \<not> startsWith h ''Bearer '' then
            (Inl (plain_response ''Missing or invalid Authorization header'' 401), ts)
          else
            let token = replace h ''Bearer '' [] in
            (case map_of ts token of
               None \<Rightarrow> (Inl (plain_response ''Invalid token'' 401), ts)
             | Some tokenData \<Rightarrow>
                 if expiry tokenData < now then
                   (Inl (plain_response ''Token expired'' 401), AList.delete token ts)
                 else (Inr (userId tokenData), ts)))"

definition earlier_login :: "env \<Rightarrow> request \<Rightarrow> tokenStore \<Rightarrow> outcome" where
  "earlier_login e req ts =
     (case payload req of
        Inl m \<Rightarrow> (plain_response (message_or m ''Server error'') 500, ts, [])
      | Inr j \<Rightarrow>
          (case get_prop (typeErrorMessage e) j ''name'' of
             Inl m \<Rightarrow> (plain_response (message_or m ''Server error'') 500, ts, [])
           | Inr nm \<Rightarrow>
               (case get_prop (typeErrorMessage e) j ''password'' of
                  Inl m \<Rightarrow> (plain_response (message_or m ''Server error'') 500, ts, [])
                | Inr pw \<Rightarrow>
                    if \<not> truthy nm \<or> \<not> truthy pw then
                      (plain_response ''Missing name or password'' 400, ts, [])
                    else
                      (case validateUser e nm pw of
                         (None, qs) \<Rightarrow> (plain_response ''Invalid credentials'' 401, ts, qs)
                       | (Some u, qs) \<Rightarrow>
                           let token = randomUUID e;
                               exp = date_now e + 3600 * 1000
                           in (createResponse
                                 (Obj (JObj [(''token'', JStr token),
                                             (''user_id'', JNum (of_int (id' u))),
                                             (''expiry'', JNum (of_int exp))])) 200,
                               AList.update token \<lparr> userId = id' u, expiry = exp \<rparr> ts,
                               qs)))))"

definition earlier_get_users :: "env \<Rightarrow> tokenStore \<Rightarrow> outcome" where
  "earlier_get_users e ts =
     (case getUsers e of
        (Inl m, qs) \<Rightarrow> (plain_response ''Server error retrieving users'' 500, ts, qs)
      | (Inr users, qs) \<Rightarrow> (createResponse (Obj (JArr (map user_json users))) 200, ts, qs))"

definition earlier_post_users :: "env \<Rightarrow> request \<Rightarrow> tokenStore \<Rightarrow> outcome" where
  "earlier_post_users e req ts =
     (case verifyToken_earlier (date_now e) (authorization req) ts of
        (Inl rejection, ts') \<Rightarrow> (rejection, ts', [])
      | (Inr uid, ts') \<Rightarrow>
          let (r, qs) =
                (case payload req of
                   Inl m \<Rightarrow> (Inl m, [])
                 | Inr b \<Rightarrow>
                     (case get_prop (typeErrorMessage e) b ''name'' of
                        Inl m \<Rightarrow> (Inl m, [])
                      | Inr nm \<Rightarrow>
                          (case get_prop (typeErrorMessage e) b ''profile_picture_url'' of
                             Inl m \<Rightarrow> (Inl m, [])
                           | Inr url \<Rightarrow>
                               if \<not> truthy nm \<or> \<not> truthy url then
                                 (Inr (plain_response ''Missing name or profile_picture_url'' 400), [])
                               else
                                 (case updateUser e uid b of
                                    (Inl m, qs) \<Rightarrow> (Inl m, qs)
                                  | (Inr u, qs) \<Rightarrow>
                                      (Inr (createResponse (Obj (user_json u)) 200), qs)))))
          in ((case r of
                 Inl m \<Rightarrow>
                   plain_response
                     (if m = ''User not found'' then ''User not found'' else ''Server error'')
                     (if m = ''User not found'' then 404 else 500)
               | Inr resp \<Rightarrow> resp),
              ts', qs))"

definition earlier_get_messages :: "env \<Rightarrow> tokenStore \<Rightarrow> outcome" where
  "earlier_get_messages e ts =
     (case getMessages e of
        (Inl m, qs) \<Rightarrow> (plain_response ''Server error retrieving messages'' 500, ts, qs)
      | (Inr messages, qs) \<Rightarrow> (createResponse (Obj (JArr messages)) 200, ts, qs))"

definition earlier_get_channel_messages :: "env \<Rightarrow> request \<Rightarrow> tokenStore \<Rightarrow> outcome" where
  "earlier_get_channel_messages e req ts =
     (case at_index (js_split (pathname req) CHR ''/'') 3 of
        None \<Rightarrow> (plain_response ''Channel not specified'' 400, ts, [])
      | Some ch \<Rightarrow>
          if ch = [] then (plain_response ''Channel not specified'' 400, ts, [])
          else
            (case decodeURIComponent e ch of
               None \<Rightarrow> (plain_response ''Server error retrieving channel messages'' 500, ts, [])
             | Some decoded \<Rightarrow>
                 (case getMessagesByChannel e decoded of
                    (Inl m, qs) \<Rightarrow>
                      (plain_response ''Server error retrieving channel messages'' 500, ts, qs)
                  | (Inr messages, qs) \<Rightarrow>
                      (createResponse (Obj (JArr messages)) 200, ts, qs))))"

text \<open>
  The message object \<^verbatim>\<open>{ body: body.body, channel: body.channel, user_id: userId }\<close>; a
  member whose value is \<^verbatim>\<open>undefined\<close> reads like an absent one.
\<close>

definition earlier_message :: "jsval \<Rightarrow> jsval \<Rightarrow> int \<Rightarrow> (string \<times> json) list" where
  "earlier_message b c uid =
     (case b of None \<Rightarrow> [] | Some v \<Rightarrow> [(''body'', v)]) @
     (case c of None \<Rightarrow> [] | Some v \<Rightarrow> [(''channel'', v)]) @
     [(''user_id'', JNum (of_int uid))]"

definition earlier_post_messages :: "env \<Rightarrow> request \<Rightarrow> tokenStore \<Rightarrow> outcome" where
  "earlier_post_messages e req ts =
     (case verifyToken_earlier (date_now e) (authorization req) ts of
        (Inl rejection, ts') \<Rightarrow> (rejection, ts', [])
      | (Inr uid, ts') \<Rightarrow>
          (case payload req of
             Inl m \<Rightarrow> (plain_response (message_or m ''Server error'') 500, ts', [])
           | Inr b \<Rightarrow>
               (case get_prop (typeErrorMessage e) b ''body'' of
                  Inl m \<Rightarrow> (plain_response (message_or m ''Server error'') 500, ts', [])
                | Inr v \<Rightarrow>
                    if \<not> truthy v then (plain_response ''Missing body'' 400, ts', [])
                    else
                      (case get_prop (typeErrorMessage e) b ''channel'' of
                         Inl m \<Rightarrow> (plain_response (message_or m ''Server error'') 500, ts', [])
                       | Inr c \<Rightarrow>
                           (case addMessage e (earlier_message v c uid) of
                              (Inl m, qs) \<Rightarrow>
                                (plain_response (message_or m ''Server error'') 500, ts', qs)
                            | (Inr None, qs) \<Rightarrow> (createResponse Undefined 201, ts', qs)
                            | (Inr (Some message), qs) \<Rightarrow>
                                (createResponse (Obj message) 201, ts', qs))))))"

definition earlier_get_channels :: "env \<Rightarrow> tokenStore \<Rightarrow> outcome" where
  "earlier_get_channels e ts =
     (case getChannels e of
        (Inl m, qs) \<Rightarrow> (plain_response ''Server error retrieving channels'' 500, ts, qs)
      | (Inr channels, qs) \<Rightarrow> (createResponse (Obj (JArr (map JStr channels))) 200, ts, qs))"

definition handler_earlier :: "env \<Rightarrow> request \<Rightarrow> tokenStore \<Rightarrow> outcome" where
  "handler_earlier e req ts =
     (let path = pathname req in
      if req_method req = ''POST'' \<and> path = ''/auth/login'' then earlier_login e req ts
      else if req_method req = ''GET'' \<and> path = ''/users'' then earlier_get_users e ts
      else if req_method req = ''POST'' \<and> path = ''/users'' then earlier_post_users e req ts
      else if req_method req = ''GET'' \<and> path = ''/messages'' then earlier_get_messages e ts
      else if req_method req = ''GET'' \<and> startsWith path ''/messages/channel/'' then
        earlier_get_channel_messages e req ts
      else if req_method req = ''POST'' \<and> path = ''/messages'' then earlier_post_messages e req ts
      else if req_method req = ''GET'' \<and> path = ''/channels'' then earlier_get_channels e ts
      else (plain_response ''Not found'' 400, ts, []))"

section \<open>The routing table of the specification\<close>

text \<open>
  The routing table as the specification gives it (section 4.3), written from its words
  and not from the handler: a route is a method and a path pattern; \<^verbatim>\<open>*\<close> stands for every
  path; a path pattern is matched segment by segment (``exact-segment matching''), the
  path and the pattern having the same number of segments; a literal segment matches
  itself, and the one dynamic segment \<^verbatim>\<open>{channel}\<close> matches one channel name, that is one
  non-empty segment.
\<close>

datatype segment = Lit string | Param

datatype path_pattern = AnyPath | Segments "segment list"

definition pattern :: "string \<Rightarrow> path_pattern" where
  "pattern s =
     Segments (map (\<lambda>x. if x = ''{channel}'' then Param else Lit x) (js_split s CHR ''/''))"

fun segment_matches :: "segment \<Rightarrow> string \<Rightarrow> bool" where
  "segment_matches (Lit l) s = (s = l)"
| "segment_matches Param s = (s \<noteq> [])"

fun path_matches :: "path_pattern \<Rightarrow> string \<Rightarrow> bool" where
  "path_matches AnyPath p = True"
| "path_matches (Segments segs) p = list_all2 segment_matches segs (js_split p CHR ''/'')"

definition spec_dispatch_table :: "(string \<times> path_pattern) list" where
  "spec_dispatch_table =
     [(''OPTIONS'', AnyPath),
      (''POST'', pattern ''/auth/login''),
      (''GET'', pattern ''/users''),
      (''POST'', pattern ''/users''),
      (''GET'', pattern ''/messages''),
      (''GET'', pattern ''/messages/channel/{channel}''),
      (''POST'', pattern ''/messages''),
      (''GET'', pattern ''/channels''),
      (''GET'', pattern ''/'')]"

definition spec_matches_route :: "request \<Rightarrow> bool" where
  "spec_matches_route req =
     list_ex (\<lambda>(m, pat). req_method req = m \<and> path_matches pat (pathname req))
       spec_dispatch_table"

section \<open>A sample environment\<close>

text \<open>
  A concrete environment and concrete requests on which the theorems below are
  instantiated: one user \<^verbatim>\<open>alice\<close> with id 1, a database that answers every query,
  the clock at instant 1000.
\<close>

definition sample_user :: user where
  "sample_user = \<lparr> id' = 1, name = ''alice'', profile_picture_url = ''a.jpg'' \<rparr>"

definition sample_env :: env where
  "sample_env =
     \<lparr> date_now = 1000,
       randomUUID = ''tok-1'',
       typeErrorMessage = (\<lambda>k. ''null has no properties''),
       decodeURIComponent = (\<lambda>s. Some s),
       sql_users = (\<lambda>q. Inr [sample_user]),
       sql_messages = (\<lambda>q. Inr [JObj [(''id'', JNum 12)]]),
       sql_channels = (\<lambda>q. Inr [\<lparr> channel = ''general'' \<rparr>]) \<rparr>"

definition sample_store :: tokenStore where
  "sample_store = [(''tok-0'', \<lparr> userId = 1, expiry = 2000 \<rparr>)]"

definition sample_request :: "string \<Rightarrow> string \<Rightarrow> string option \<Rightarrow> json \<Rightarrow> request" where
  "sample_request m p auth j = \<lparr> req_method = m, pathname = p, authorization = auth, payload = Inr j \<rparr>"

definition sample_login :: request where
  "sample_login =
     sample_request ''POST'' ''/auth/login'' None
       (JObj [(''name'', JStr ''alice''), (''password'', JStr ''secret123'')])"

text \<open>A registry whose one entry expired before the sample clock.\<close>

definition stale_store :: tokenStore where
  "stale_store = [(''tok-old'', \<lparr> userId = 1, expiry = 500 \<rparr>)]"

text \<open>An authenticated message post whose body names another user and gives only a text.\<close>

definition sample_post :: request where
  "sample_post =
     sample_request ''POST'' ''/messages'' (Some ''Bearer tok-0'')
       (JObj [(''body'', JStr ''hi''), (''user_id'', JNum 999)])"

text \<open>Requests whose bodies carry an empty string where a value is required or defaulted.\<close>

definition login_blank_name :: request where
  "login_blank_name =
     sample_request ''POST'' ''/auth/login'' None
       (JObj [(''name'', JStr ''''), (''password'', JStr ''x'')])"

definition update_blank_url :: request where
  "update_blank_url =
     sample_request ''POST'' ''/users'' (Some ''Bearer tok-0'')
       (JObj [(''name'', JStr ''bob''), (''profile_picture_url'', JStr '''')])"

definition post_blank_body :: request where
  "post_blank_body =
     sample_request ''POST'' ''/messages'' (Some ''Bearer tok-0'') (JObj [(''body'', JStr '''')])"

definition post_blank_channel :: request where
  "post_blank_channel =
     sample_request ''POST'' ''/messages'' (Some ''Bearer tok-0'')
       (JObj [(''body'', JStr ''hi''), (''channel'', JStr '''')])"

section \<open>Facts about the string helpers and the registry\<close>

lemma replace_prefix: "startsWith s p \<Longrightarrow> replace s p r = r @ drop (length p) s"
  by (cases s) (auto simp: startsWith_def)

lemma startsWith_append: "startsWith (p @ s) p"
  by (simp add: startsWith_def)

lemma bearer_token: "replace (''Bearer '' @ tok) ''Bearer '' [] = tok"
  using replace_prefix [OF startsWith_append, of "''Bearer ''" tok "[]"] by simp

lemma verifyToken_bearer:
  "verifyToken now (Some (''Bearer '' @ tok)) ts =
     (case map_of ts tok of
        None \<Rightarrow> (Inl (createResponse (Str ''Invalid token'') 401), ts)
      | Some d \<Rightarrow>
          if expiry d < now then (Inl (createResponse (Str ''Token expired'') 401), AList.delete tok ts)
          else (Inr (userId d), ts))"
  unfolding verifyToken_def using startsWith_append [of "''Bearer ''" tok] bearer_token [of tok]
  by (simp del: replace.simps)

lemma sweep_loop_filter:
  "sweep_loop now es ts =
     filter (\<lambda>(t, d). \<not> (\<exists>d'. (t, d') \<in> set es \<and> expiry d' < now)) ts"
proof (induction es arbitrary: ts)
  case Nil
  then show ?case by simp
next
  case (Cons x es)
  obtain t d where x: "x = (t, d)" by (cases x)
  show ?case
    unfolding x by (auto simp: Cons.IH AList.delete_eq filter_filter intro!: filter_cong)
qed

lemma sweep_filter:
  assumes "wf_store ts"
  shows "sweep now ts = filter (\<lambda>(t, d). \<not> expiry d < now) ts"
proof -
  have "\<And>t d. (t, d) \<in> set ts \<Longrightarrow>
          (\<exists>d'. (t, d') \<in> set ts \<and> expiry d' < now) = (expiry d < now)"
    using assms unfolding wf_store_def by (auto dest: eq_key_imp_eq_value)
  then show ?thesis
    unfolding sweep_def sweep_loop_filter by (auto intro!: filter_cong)
qed

lemma map_of_filter_value:
  "distinct (map fst al) \<Longrightarrow>
   map_of (filter (\<lambda>(k, v). P v) al) k =
     (case map_of al k of None \<Rightarrow> None | Some v \<Rightarrow> if P v then Some v else None)"
  by (induction al) (auto split: option.splits simp: image_iff dest!: map_of_SomeD)

lemma wf_store_delete: "wf_store ts \<Longrightarrow> wf_store (AList.delete k ts)"
  unfolding wf_store_def by (rule distinct_delete)

lemma wf_store_update: "wf_store ts \<Longrightarrow> wf_store (AList.update k v ts)"
  unfolding wf_store_def by (rule distinct_update)

lemma wf_store_sweep: "wf_store ts \<Longrightarrow> wf_store (sweep now ts)"
  unfolding wf_store_def using sweep_filter [of ts now]
  by (simp add: wf_store_def distinct_map_filter)

section \<open>Sweep\<close>

text \<open>
  C4 (as amended). For every registry and every sweep instant \<open>now\<close>, after one sweep
  pass no entry with expiry before \<open>now\<close> remains, and every entry with expiry at or
  after \<open>now\<close> is left as it was; the pass adds nothing.
\<close>

theorem sweep_removes_entries_before_now:
  assumes "wf_store ts"
  shows "map_of (sweep now ts) t =
           (case map_of ts t of
              None \<Rightarrow> None
            | Some d \<Rightarrow> if expiry d < now then None else Some d)"
proof -
  have "distinct (map fst ts)"
    using assms by (simp add: wf_store_def)
  then show ?thesis
    unfolding sweep_filter [OF assms]
    using map_of_filter_value [of ts "\<lambda>d. \<not> expiry d < now" t]
    by (simp split: option.splits)
qed

theorem sweep_removes_entries_before_now_witness:
  "wf_store [(''a'', \<lparr>userId = 1, expiry = 6\<rparr>), (''b'', \<lparr>userId = 2, expiry = 4\<rparr>)] \<and>
   map_of (sweep 5 [(''a'', \<lparr>userId = 1, expiry = 6\<rparr>), (''b'', \<lparr>userId = 2, expiry = 4\<rparr>)]) ''a''
     = Some \<lparr>userId = 1, expiry = 6\<rparr> \<and>
   map_of (sweep 5 [(''a'', \<lparr>userId = 1, expiry = 6\<rparr>), (''b'', \<lparr>userId = 2, expiry = 4\<rparr>)]) ''b''
     = None"
proof -
  have wf: "wf_store [(''a'', \<lparr>userId = 1, expiry = 6\<rparr>), (''b'', \<lparr>userId = 2, expiry = 4\<rparr>)]"
    by (simp add: wf_store_def)
  show ?thesis
    using wf sweep_removes_entries_before_now [OF wf, of 5 "''a''"]
      sweep_removes_entries_before_now [OF wf, of 5 "''b''"]
    by simp
qed

text \<open>
  The claim as first stated fails at the boundary: an entry whose expiry equals the sweep
  instant stays in the registry.
\<close>

theorem sweep_keeps_entry_expiring_now:
  "map_of (sweep 5 [(''t'', \<lparr>userId = 1, expiry = 5\<rparr>)]) ''t'' = Some \<lparr>userId = 1, expiry = 5\<rparr>"
  by (simp add: sweep_def)

section \<open>Token verification\<close>

text \<open>
  C9. For every token whose registry entry has its expiry strictly in the future,
  \<open>verifyToken\<close> returns the entry's user id and leaves the registry exactly as it was.
\<close>

theorem verifyToken_active_leaves_registry:
  assumes "map_of ts tok = Some d" and "now < expiry d"
  shows "verifyToken now (Some (''Bearer '' @ tok)) ts = (Inr (userId d), ts)"
  unfolding verifyToken_bearer using assms by simp

theorem verifyToken_active_leaves_registry_witness:
  "map_of [(''t'', \<lparr>userId = 7, expiry = 100\<rparr>)] ''t'' = Some \<lparr>userId = 7, expiry = 100\<rparr> \<and>
   (99::int) < expiry \<lparr>userId = 7, expiry = 100\<rparr> \<and>
   verifyToken 99 (Some (''Bearer '' @ ''t'')) [(''t'', \<lparr>userId = 7, expiry = 100\<rparr>)]
     = (Inr 7, [(''t'', \<lparr>userId = 7, expiry = 100\<rparr>)])"
proof -
  have h1: "map_of [(''t'', \<lparr>userId = 7, expiry = 100\<rparr>)] ''t'' = Some \<lparr>userId = 7, expiry = 100\<rparr>"
    by simp
  have h2: "(99::int) < expiry \<lparr>userId = 7, expiry = 100\<rparr>"
    by simp
  show ?thesis
    using h1 h2 verifyToken_active_leaves_registry [OF h1 h2] by simp
qed

section \<open>Facts about responses and routing\<close>

lemma status_createResponse [simp]: "status (createResponse b st) = st"
  by (simp add: createResponse_def)

lemma body_createResponse_Str [simp]: "body (createResponse (Str s) st) = Text s"
  by (simp add: createResponse_def)

lemma cors_createResponse [simp]:
  "header_value (createResponse b st) ''Access-Control-Allow-Origin'' = Some ''*''"
  by (simp add: createResponse_def header_value_def)

lemma outcome_sel [simp]:
  "response_of (r, s, q) = r" "store_of (r, s, q) = s" "queries_of (r, s, q) = q"
  by (simp_all add: response_of_def store_of_def queries_of_def)

lemma handler_login:
  "req_method req = ''POST'' \<Longrightarrow> pathname req = ''/auth/login'' \<Longrightarrow> handler e req ts = route_login e req ts"
  by (simp add: handler_def)

lemma handler_post_users:
  "req_method req = ''POST'' \<Longrightarrow> pathname req = ''/users'' \<Longrightarrow> handler e req ts = route_post_users e req ts"
  by (simp add: handler_def)

lemma handler_post_messages:
  "req_method req = ''POST'' \<Longrightarrow> pathname req = ''/messages'' \<Longrightarrow> handler e req ts = route_post_messages e req ts"
  by (simp add: handler_def startsWith_def)

lemma handler_get_channel_messages:
  assumes m: "req_method req = ''GET''" and p: "startsWith (pathname req) ''/messages/channel/''"
  shows "handler e req ts = route_get_channel_messages e req ts"
proof -
  from p have "pathname req \<noteq> ''/users''" and "pathname req \<noteq> ''/messages''"
    by (auto simp: startsWith_def)
  with m p show ?thesis
    by (simp add: handler_def)
qed

lemma route_login_success:
  assumes "status (response_of (route_login e req ts)) = 200"
  shows "\<exists>u::user.
           response_of (route_login e req ts) =
             createResponse
               (Obj (JObj [(''token'', JStr (randomUUID e)),
                           (''user_id'', JNum (of_int (id' u))),
                           (''expiry'', JNum (of_int (date_now e + 600000)))])) 200 \<and>
           store_of (route_login e req ts) =
             AList.update (randomUUID e) \<lparr> userId = id' u, expiry = date_now e + 600000 \<rparr> ts"
  using assms unfolding route_login_def
  by (auto simp: Let_def split: sum.splits option.splits prod.splits if_splits)

section \<open>Token lifecycle\<close>

text \<open>
  C1 (as amended). For the token that a successful login places in the registry,
  \<open>verifyToken\<close> returns the stored user id at every instant up to and including the
  stored expiry, and returns the ``Token expired'' rejection at every instant strictly
  after it; that call deletes the entry, and every later \<open>verifyToken\<close> call on the same
  token returns the ``Invalid token'' rejection and leaves the registry as it is. The
  stored expiry is the login instant plus ten minutes, and the login response reports
  the token, the stored user id and the stored expiry.
\<close>

theorem token_lifecycle:
  assumes "req_method req = ''POST''" and "pathname req = ''/auth/login''"
    and "status (response_of (handler e req ts)) = 200"
  shows "\<exists>d. map_of (store_of (handler e req ts)) (randomUUID e) = Some d \<and>
           expiry d = date_now e + 600000 \<and>
           body (response_of (handler e req ts)) =
             Stringified (JObj [(''token'', JStr (randomUUID e)),
                                (''user_id'', JNum (of_int (userId d))),
                                (''expiry'', JNum (of_int (expiry d)))]) \<and>
           (\<forall>now. now \<le> expiry d \<longrightarrow>
              verifyToken now (Some (''Bearer '' @ randomUUID e)) (store_of (handler e req ts)) =
                (Inr (userId d), store_of (handler e req ts))) \<and>
           (\<forall>now. expiry d < now \<longrightarrow>
              verifyToken now (Some (''Bearer '' @ randomUUID e)) (store_of (handler e req ts)) =
                (Inl (createResponse (Str ''Token expired'') 401),
                 AList.delete (randomUUID e) (store_of (handler e req ts)))) \<and>
           (\<forall>later.
              verifyToken later (Some (''Bearer '' @ randomUUID e))
                  (AList.delete (randomUUID e) (store_of (handler e req ts))) =
                (Inl (createResponse (Str ''Invalid token'') 401),
                 AList.delete (randomUUID e) (store_of (handler e req ts))))"
proof -
  have h: "handler e req ts = route_login e req ts"
    using assms by (simp add: handler_login)
  from route_login_success [of e req ts] assms(3) obtain u :: user where
    resp: "response_of (handler e req ts) =
             createResponse
               (Obj (JObj [(''token'', JStr (randomUUID e)),
                           (''user_id'', JNum (of_int (id' u))),
                           (''expiry'', JNum (of_int (date_now e + 600000)))])) 200" and
    ts': "store_of (handler e req ts) =
            AList.update (randomUUID e) \<lparr> userId = id' u, expiry = date_now e + 600000 \<rparr> ts"
    unfolding h by blast
  let ?d = "\<lparr> userId = id' u, expiry = date_now e + 600000 \<rparr>"
  let ?ts = "store_of (handler e req ts)"
  have look: "map_of ?ts (randomUUID e) = Some ?d"
    unfolding ts' by (simp add: update_conv')
  have gone: "map_of (AList.delete (randomUUID e) ?ts) (randomUUID e) = None"
    by (simp add: delete_conv')
  have "body (response_of (handler e req ts)) =
          Stringified (JObj [(''token'', JStr (randomUUID e)),
                             (''user_id'', JNum (of_int (userId ?d))),
                             (''expiry'', JNum (of_int (expiry ?d)))])"
    unfolding resp by (simp add: createResponse_def)
  moreover have "\<forall>now. now \<le> expiry ?d \<longrightarrow>
      verifyToken now (Some (''Bearer '' @ randomUUID e)) ?ts = (Inr (userId ?d), ?ts)"
    unfolding verifyToken_bearer look by simp
  moreover have "\<forall>now. expiry ?d < now \<longrightarrow>
              verifyToken now (Some (''Bearer '' @ randomUUID e)) ?ts =
                (Inl (createResponse (Str ''Token expired'') 401), AList.delete (randomUUID e) ?ts)"
    unfolding verifyToken_bearer look by simp
  moreover have "\<forall>later.
                 verifyToken later (Some (''Bearer '' @ randomUUID e)) (AList.delete (randomUUID e) ?ts) =
                   (Inl (createResponse (Str ''Invalid token'') 401), AList.delete (randomUUID e) ?ts)"
    unfolding verifyToken_bearer gone by simp
  ultimately show ?thesis
    using look by (intro exI [of _ ?d]) simp
qed

lemma sample_login_outcome:
  "handler sample_env sample_login [] =
     (createResponse
        (Obj (JObj [(''token'', JStr ''tok-1''), (''user_id'', JNum 1), (''expiry'', JNum 601000)])) 200,
      [(''tok-1'', \<lparr> userId = 1, expiry = 601000 \<rparr>)],
      [SelectUser (Some (JStr ''alice'')) (Some (JStr ''secret123''))])"
  by (simp add: handler_def route_login_def sample_login_def sample_request_def sample_env_def
      sample_user_def validateUser_def obj_member_def Let_def)

theorem token_lifecycle_witness:
  "req_method sample_login = ''POST'' \<and> pathname sample_login = ''/auth/login'' \<and>
   status (response_of (handler sample_env sample_login [])) = 200 \<and>
   verifyToken 601000 (Some ''Bearer tok-1'') (store_of (handler sample_env sample_login [])) =
     (Inr 1, [(''tok-1'', \<lparr> userId = 1, expiry = 601000 \<rparr>)]) \<and>
   verifyToken 601001 (Some ''Bearer tok-1'') (store_of (handler sample_env sample_login [])) =
     (Inl (createResponse (Str ''Token expired'') 401), []) \<and>
   verifyToken 601002 (Some ''Bearer tok-1'') [] =
     (Inl (createResponse (Str ''Invalid token'') 401), [])"
proof -
  have m: "req_method sample_login = ''POST''" and p: "pathname sample_login = ''/auth/login''"
    by (simp_all add: sample_login_def sample_request_def)
  have st: "status (response_of (handler sample_env sample_login [])) = 200"
    by (simp add: sample_login_outcome)
  have u: "randomUUID sample_env = ''tok-1''"
    by (simp add: sample_env_def)
  from token_lifecycle [OF m p st] obtain d where
    d: "map_of (store_of (handler sample_env sample_login [])) (randomUUID sample_env) = Some d" and
    live: "\<forall>now. now \<le> expiry d \<longrightarrow>
              verifyToken now (Some (''Bearer '' @ randomUUID sample_env))
                  (store_of (handler sample_env sample_login [])) =
                (Inr (userId d), store_of (handler sample_env sample_login []))" and
    dead: "\<forall>now. expiry d < now \<longrightarrow>
              verifyToken now (Some (''Bearer '' @ randomUUID sample_env))
                  (store_of (handler sample_env sample_login [])) =
                (Inl (createResponse (Str ''Token expired'') 401),
                 AList.delete (randomUUID sample_env) (store_of (handler sample_env sample_login [])))" and
    after: "\<forall>later.
              verifyToken later (Some (''Bearer '' @ randomUUID sample_env))
                  (AList.delete (randomUUID sample_env) (store_of (handler sample_env sample_login []))) =
                (Inl (createResponse (Str ''Invalid token'') 401),
                 AList.delete (randomUUID sample_env) (store_of (handler sample_env sample_login [])))"
    by blast
  from d have dv: "d = \<lparr> userId = 1, expiry = 601000 \<rparr>"
    by (simp add: sample_login_outcome u)
  from live [rule_format, of 601000] dead [rule_format, of 601001] after [rule_format, of 601002]
  show ?thesis
    using m p st by (simp add: dv u sample_login_outcome)
qed

text \<open>
  The claim as first stated fails at the boundary: at the instant equal to the stored
  expiry the token is still accepted. The registry below is the one the sample login
  leaves (\<open>sample_login_outcome\<close>).
\<close>

theorem verifyToken_accepts_at_expiry_instant:
  "fst (verifyToken 601000 (Some ''Bearer tok-1'') [(''tok-1'', \<lparr> userId = 1, expiry = 601000 \<rparr>)])
     = Inr 1 \<and>
   fst (verifyToken 601000 (Some ''Bearer tok-1'') [(''tok-1'', \<lparr> userId = 1, expiry = 601000 \<rparr>)])
     \<noteq> Inl (createResponse (Str ''Token expired'') 401)"
  by (simp add: verifyToken_def startsWith_def)

section \<open>The access-control gate on the protected routes\<close>

lemma verifyToken_no_bearer:
  assumes "a = None \<or> (\<exists>h. a = Some h \<and> \<not> startsWith h ''Bearer '')"
  shows "verifyToken now a ts =
           (Inl (createResponse (Str ''Missing or invalid Authorization header'') 401), ts)"
  using assms unfolding verifyToken_def by (auto split: option.splits)

lemma verifyToken_rejection:
  assumes "verifyToken now a ts = (Inl r, ts')"
  shows "\<exists>s. r = createResponse (Str s) 401"
  using assms unfolding verifyToken_def
  by (auto simp: Let_def split: option.splits if_splits)

lemma protected_route_rejected:
  assumes "req_method req = ''POST''" and "pathname req = ''/users'' \<or> pathname req = ''/messages''"
    and "verifyToken (date_now e) (authorization req) ts = (Inl r, ts')"
  shows "handler e req ts = (r, ts', [])"
  using assms(2)
proof
  assume "pathname req = ''/users''"
  then show ?thesis
    using assms(1,3) by (simp add: handler_post_users route_post_users_def)
next
  assume "pathname req = ''/messages''"
  then show ?thesis
    using assms(1,3) by (simp add: handler_post_messages route_post_messages_def)
qed

text \<open>
  C2. For every request to a protected route (POST /users or POST /messages): without an
  Authorization header, or with one that does not start with the Bearer scheme, the
  response status is 401; with a Bearer token that the registry does not hold, the
  status is 401; with a token whose expiry is before the clock, the status is 401 and
  the token's entry is removed from the registry. In all three cases no statement
  reaches the database, and in the first two the registry is unchanged.
\<close>

theorem auth_gate:
  assumes "req_method req = ''POST''" and "pathname req = ''/users'' \<or> pathname req = ''/messages''"
  shows "(authorization req = None \<or>
            (\<exists>h. authorization req = Some h \<and> \<not> startsWith h ''Bearer '') \<longrightarrow>
          status (response_of (handler e req ts)) = 401 \<and>
          store_of (handler e req ts) = ts \<and> queries_of (handler e req ts) = []) \<and>
         (\<forall>tok. authorization req = Some (''Bearer '' @ tok) \<and> map_of ts tok = None \<longrightarrow>
          status (response_of (handler e req ts)) = 401 \<and>
          store_of (handler e req ts) = ts \<and> queries_of (handler e req ts) = []) \<and>
         (\<forall>tok d. authorization req = Some (''Bearer '' @ tok) \<and> map_of ts tok = Some d \<and>
                  expiry d < date_now e \<longrightarrow>
          status (response_of (handler e req ts)) = 401 \<and>
          store_of (handler e req ts) = AList.delete tok ts \<and>
          map_of (store_of (handler e req ts)) tok = None \<and>
          queries_of (handler e req ts) = [])"
proof (intro conjI allI impI)
  assume "authorization req = None \<or>
            (\<exists>h. authorization req = Some h \<and> \<not> startsWith h ''Bearer '')"
  from verifyToken_no_bearer [OF this]
  have "handler e req ts =
          (createResponse (Str ''Missing or invalid Authorization header'') 401, ts, [])"
    by (rule protected_route_rejected [OF assms])
  then show "status (response_of (handler e req ts)) = 401"
    and "store_of (handler e req ts) = ts" and "queries_of (handler e req ts) = []"
    by simp_all
next
  fix tok
  assume "authorization req = Some (''Bearer '' @ tok) \<and> map_of ts tok = None"
  then have "verifyToken (date_now e) (authorization req) ts =
               (Inl (createResponse (Str ''Invalid token'') 401), ts)"
    by (simp only: verifyToken_bearer option.case)
  then have "handler e req ts = (createResponse (Str ''Invalid token'') 401, ts, [])"
    by (rule protected_route_rejected [OF assms])
  then show "status (response_of (handler e req ts)) = 401"
    and "store_of (handler e req ts) = ts" and "queries_of (handler e req ts) = []"
    by simp_all
next
  fix tok d
  assume "authorization req = Some (''Bearer '' @ tok) \<and> map_of ts tok = Some d \<and>
            expiry d < date_now e"
  then have "verifyToken (date_now e) (authorization req) ts =
               (Inl (createResponse (Str ''Token expired'') 401), AList.delete tok ts)"
    by (simp only: verifyToken_bearer option.case if_True)
  then have "handler e req ts =
               (createResponse (Str ''Token expired'') 401, AList.delete tok ts, [])"
    by (rule protected_route_rejected [OF assms])
  then show "status (response_of (handler e req ts)) = 401"
    and "store_of (handler e req ts) = AList.delete tok ts"
    and "map_of (store_of (handler e req ts)) tok = None"
    and "queries_of (handler e req ts) = []"
    by (simp_all add: delete_conv')
qed

theorem auth_gate_witness:
  "status (response_of (handler sample_env (sample_request ''POST'' ''/users'' None JNull) sample_store))
     = 401 \<and>
   status (response_of
      (handler sample_env (sample_request ''POST'' ''/messages'' (Some ''Basic abc'') JNull) sample_store))
     = 401 \<and>
   status (response_of
      (handler sample_env (sample_request ''POST'' ''/messages'' (Some ''Bearer nope'') JNull) sample_store))
     = 401 \<and>
   status (response_of
      (handler sample_env (sample_request ''POST'' ''/users'' (Some ''Bearer tok-old'') JNull) stale_store))
     = 401 \<and>
   store_of (handler sample_env (sample_request ''POST'' ''/users'' (Some ''Bearer tok-old'') JNull) stale_store)
     = []"
proof -
  have 1: "status (response_of
             (handler sample_env (sample_request ''POST'' ''/users'' None JNull) sample_store)) = 401"
    using auth_gate [of "sample_request ''POST'' ''/users'' None JNull" sample_env sample_store]
    by (simp add: sample_request_def)
  have 2: "status (response_of
      (handler sample_env (sample_request ''POST'' ''/messages'' (Some ''Basic abc'') JNull) sample_store))
     = 401"
    using auth_gate [of "sample_request ''POST'' ''/messages'' (Some ''Basic abc'') JNull"
        sample_env sample_store]
    by (simp add: sample_request_def startsWith_def)
  have 3: "status (response_of
      (handler sample_env (sample_request ''POST'' ''/messages'' (Some ''Bearer nope'') JNull) sample_store))
     = 401"
    using auth_gate [of "sample_request ''POST'' ''/messages'' (Some ''Bearer nope'') JNull"
        sample_env sample_store]
    by (simp add: sample_request_def sample_store_def)
  have 4: "status (response_of
      (handler sample_env (sample_request ''POST'' ''/users'' (Some ''Bearer tok-old'') JNull) stale_store))
     = 401 \<and>
   store_of (handler sample_env (sample_request ''POST'' ''/users'' (Some ''Bearer tok-old'') JNull) stale_store)
     = []"
    using auth_gate [of "sample_request ''POST'' ''/users'' (Some ''Bearer tok-old'') JNull"
        sample_env stale_store]
    by (simp add: sample_request_def stale_store_def sample_env_def)
  from 1 2 3 4 show ?thesis by simp
qed

section \<open>The cross-origin header\<close>

lemma cors_verifyToken_rejection:
  assumes "verifyToken now a ts = (Inl r, ts')"
  shows "header_value r ''Access-Control-Allow-Origin'' = Some ''*''"
  using verifyToken_rejection [OF assms] by auto

lemma cors_route_options:
  "header_value (response_of (route_options ts)) ''Access-Control-Allow-Origin'' = Some ''*''"
  by (simp add: route_options_def header_value_def)

lemma cors_route_login:
  "header_value (response_of (route_login e req ts)) ''Access-Control-Allow-Origin'' = Some ''*''"
  unfolding route_login_def
  by (simp add: Let_def split: sum.splits option.splits prod.splits)

lemma cors_route_get_users:
  "header_value (response_of (route_get_users e ts)) ''Access-Control-Allow-Origin'' = Some ''*''"
  unfolding route_get_users_def by (simp split: sum.splits prod.splits)

lemma cors_route_post_users:
  "header_value (response_of (route_post_users e req ts)) ''Access-Control-Allow-Origin'' = Some ''*''"
proof (cases "verifyToken (date_now e) (authorization req) ts")
  case (Pair v ts')
  show ?thesis
  proof (cases v)
    case (Inl r)
    with Pair show ?thesis
      by (simp add: route_post_users_def cors_verifyToken_rejection)
  next
    case (Inr uid)
    with Pair show ?thesis
      unfolding route_post_users_def
      by (simp add: Let_def split: sum.splits option.splits prod.splits)
  qed
qed

lemma cors_route_get_messages:
  "header_value (response_of (route_get_messages e ts)) ''Access-Control-Allow-Origin'' = Some ''*''"
  unfolding route_get_messages_def by (simp split: sum.splits prod.splits)

lemma cors_route_get_channel_messages:
  "header_value (response_of (route_get_channel_messages e req ts)) ''Access-Control-Allow-Origin''
     = Some ''*''"
  unfolding route_get_channel_messages_def
  by (simp split: sum.splits option.splits prod.splits)

lemma cors_route_post_messages:
  "header_value (response_of (route_post_messages e req ts)) ''Access-Control-Allow-Origin'' = Some ''*''"
proof (cases "verifyToken (date_now e) (authorization req) ts")
  case (Pair v ts')
  show ?thesis
  proof (cases v)
    case (Inl r)
    with Pair show ?thesis
      by (simp add: route_post_messages_def cors_verifyToken_rejection)
  next
    case (Inr uid)
    with Pair show ?thesis
      unfolding route_post_messages_def
      by (simp split: sum.splits option.splits prod.splits)
  qed
qed

lemma cors_route_get_channels:
  "header_value (response_of (route_get_channels e ts)) ''Access-Control-Allow-Origin'' = Some ''*''"
  unfolding route_get_channels_def by (simp split: sum.splits prod.splits)

lemma cors_route_root:
  "header_value (response_of (route_root ts)) ''Access-Control-Allow-Origin'' = Some ''*''"
  by (simp add: route_root_def)

text \<open>
  C6. For every request, every environment and every registry, the response of the
  handler (the preflight answer, each success, each 400, 401, 404 and 500) carries the
  header \<^verbatim>\<open>Access-Control-Allow-Origin: *\<close>.
\<close>

theorem every_response_allows_any_origin:
  "header_value (response_of (handler e req ts)) ''Access-Control-Allow-Origin'' = Some ''*''"
  unfolding handler_def Let_def
  by (simp only: cors_route_options cors_route_login cors_route_get_users cors_route_post_users
      cors_route_get_messages cors_route_get_channel_messages cors_route_post_messages
      cors_route_get_channels cors_route_root cors_createResponse outcome_sel if_distrib [of response_of]
      if_distrib [of "\<lambda>r. header_value r ''Access-Control-Allow-Origin''"] if_cancel
      split: if_splits)

section \<open>Posting a message\<close>

lemma get_prop_truthy:
  assumes "get_prop t b k = Inr v" and "truthy v"
  shows "\<exists>kvs. b = JObj kvs \<and> v = obj_member kvs k"
  using assms by (cases b) auto

lemma obj_member_snoc_same: "obj_member (kvs @ [(k, v)]) k = Some v"
  by (simp add: obj_member_def)

lemma obj_member_snoc_other: "k \<noteq> k' \<Longrightarrow> obj_member (kvs @ [(k', v)]) k = obj_member kvs k"
  by (simp add: obj_member_def)

lemma obj_member_absent: "k \<notin> fst ` set kvs \<Longrightarrow> obj_member kvs k = None"
  by (simp add: obj_member_def map_of_eq_None_iff)

lemma or_else_undefined [simp]: "or_else None d = d"
  by (simp add: or_else_def)

lemma or_else_empty_string [simp]: "or_else (Some (JStr [])) d = d"
  by (simp add: or_else_def)

text \<open>The values that an authenticated post with a truthy \<^verbatim>\<open>body\<close> member inserts.\<close>

lemma route_post_messages_insert:
  assumes "verifyToken (date_now e) (authorization req) ts = (Inr uid, ts')"
    and "payload req = Inr (JObj kvs)" and "truthy (obj_member kvs ''body'')"
  shows "queries_of (route_post_messages e req ts) =
           [InsertMessage
              \<lparr> ins_body = obj_member kvs ''body'',
                ins_user_id = Some (JNum (of_int uid)),
                ins_attachments = or_else (obj_member kvs ''attachments'') (JArr []),
                ins_in_reply_to = or_else (obj_member kvs ''in_reply_to'') JNull,
                ins_channel = or_else (obj_member kvs ''channel'') (JStr ''general'') \<rparr>]"
  using assms unfolding route_post_messages_def addMessage_def
  by (simp add: Let_def obj_member_snoc_same obj_member_snoc_other
      split: sum.splits option.splits)

lemma route_post_messages_cases:
  assumes "verifyToken (date_now e) (authorization req) ts = (Inr uid, ts')"
  shows "(status (response_of (route_post_messages e req ts)) \<noteq> 201 \<and>
          queries_of (route_post_messages e req ts) = []) \<or>
         (\<exists>kvs. payload req = Inr (JObj kvs) \<and> truthy (obj_member kvs ''body''))"
proof (cases "payload req")
  case (Inl m)
  with assms show ?thesis
    by (simp add: route_post_messages_def)
next
  case (Inr b)
  show ?thesis
  proof (cases "get_prop (typeErrorMessage e) b ''body''")
    case (Inl m)
    with Inr assms show ?thesis
      by (simp add: route_post_messages_def)
  next
    case v: (Inr v)
    show ?thesis
    proof (cases "truthy v")
      case True
      from get_prop_truthy [OF v True] Inr True show ?thesis
        by auto
    next
      case False
      with v Inr assms show ?thesis
        by (simp add: route_post_messages_def)
    qed
  qed
qed

lemma route_post_messages_unauthenticated:
  assumes "verifyToken (date_now e) (authorization req) ts = (Inl r, ts')"
  shows "status (response_of (route_post_messages e req ts)) = 401 \<and>
         queries_of (route_post_messages e req ts) = []"
  using assms verifyToken_rejection [OF assms]
  by (auto simp: route_post_messages_def)

lemma route_post_messages_no_insert:
  assumes "verifyToken (date_now e) (authorization req) ts = (Inr uid, ts')"
    and "payload req = Inr (JObj kvs)" and "\<not> truthy (obj_member kvs ''body'')"
  shows "route_post_messages e req ts = (createResponse (Str ''Missing body'') 400, ts', [])"
  using assms by (simp add: route_post_messages_def)

lemma obj_member_delete_other:
  "k \<noteq> k' \<Longrightarrow> obj_member (AList.delete k' kvs) k = obj_member kvs k"
proof -
  assume "k \<noteq> k'"
  have "rev (AList.delete k' kvs) = AList.delete k' (rev kvs)"
    by (simp add: AList.delete_eq rev_filter)
  with \<open>k \<noteq> k'\<close> show ?thesis
    by (simp add: obj_member_def)
qed

lemma route_post_messages_queries:
  assumes "verifyToken (date_now e) (authorization req) ts = (Inr uid, ts')"
    and "payload req = Inr (JObj kvs)"
  shows "queries_of (route_post_messages e req ts) =
           (if truthy (obj_member kvs ''body'') then
              [InsertMessage
                 \<lparr> ins_body = obj_member kvs ''body'',
                   ins_user_id = Some (JNum (of_int uid)),
                   ins_attachments = or_else (obj_member kvs ''attachments'') (JArr []),
                   ins_in_reply_to = or_else (obj_member kvs ''in_reply_to'') JNull,
                   ins_channel = or_else (obj_member kvs ''channel'') (JStr ''general'') \<rparr>]
            else [])"
  using route_post_messages_insert [OF assms] route_post_messages_no_insert [OF assms]
  by simp

text \<open>
  C3. For every authenticated POST /messages request and every request body, each
  statement the handler sends is an INSERT whose \<^verbatim>\<open>user_id\<close> value is the caller's user
  id as \<open>verifyToken\<close> resolved it; a 201 answer comes with exactly one such INSERT. The
  body's own \<^verbatim>\<open>user_id\<close> member never reaches the store: the handler sends the same
  statements when that member is removed from the body.
\<close>

theorem post_message_owner:
  assumes "req_method req = ''POST''" and "pathname req = ''/messages''"
    and "verifyToken (date_now e) (authorization req) ts = (Inr uid, ts')"
  shows "(\<forall>q \<in> set (queries_of (handler e req ts)).
            \<exists>v. q = InsertMessage v \<and> ins_user_id v = Some (JNum (of_int uid))) \<and>
         (status (response_of (handler e req ts)) = 201 \<longrightarrow>
            (\<exists>v. queries_of (handler e req ts) = [InsertMessage v])) \<and>
         (\<forall>kvs. payload req = Inr (JObj kvs) \<longrightarrow>
            queries_of (handler e req ts) =
              queries_of (handler e (req\<lparr>payload := Inr (JObj (AList.delete ''user_id'' kvs))\<rparr>) ts))"
proof (intro conjI allI impI)
  have h: "handler e req ts = route_post_messages e req ts"
    using assms(1,2) by (rule handler_post_messages)
  have either: "(\<forall>q \<in> set (queries_of (handler e req ts)).
            \<exists>v. q = InsertMessage v \<and> ins_user_id v = Some (JNum (of_int uid))) \<and>
         (status (response_of (handler e req ts)) = 201 \<longrightarrow>
            (\<exists>v. queries_of (handler e req ts) = [InsertMessage v]))"
    using route_post_messages_cases [OF assms(3)]
  proof
    assume "status (response_of (route_post_messages e req ts)) \<noteq> 201 \<and>
          queries_of (route_post_messages e req ts) = []"
    then show ?thesis unfolding h by simp
  next
    assume "\<exists>kvs. payload req = Inr (JObj kvs) \<and> truthy (obj_member kvs ''body'')"
    then obtain kvs where "payload req = Inr (JObj kvs)" and "truthy (obj_member kvs ''body'')"
      by blast
    from route_post_messages_insert [OF assms(3) this] show ?thesis
      unfolding h by simp
  qed
  from either show "\<forall>q \<in> set (queries_of (handler e req ts)).
            \<exists>v. q = InsertMessage v \<and> ins_user_id v = Some (JNum (of_int uid))"
    by blast
  {
    assume "status (response_of (handler e req ts)) = 201"
    with either show "\<exists>v. queries_of (handler e req ts) = [InsertMessage v]"
      by blast
  }
  fix kvs
  assume body: "payload req = Inr (JObj kvs)"
  let ?req' = "req\<lparr>payload := Inr (JObj (AList.delete ''user_id'' kvs))\<rparr>"
  have h': "handler e ?req' ts = route_post_messages e ?req' ts"
    using assms(1,2) by (intro handler_post_messages) simp_all
  have auth': "verifyToken (date_now e) (authorization ?req') ts = (Inr uid, ts')"
    using assms(3) by simp
  have body': "payload ?req' = Inr (JObj (AList.delete ''user_id'' kvs))"
    by simp
  show "queries_of (handler e req ts) = queries_of (handler e ?req' ts)"
    unfolding h h' route_post_messages_queries [OF assms(3) body]
      route_post_messages_queries [OF auth' body']
    by (simp add: obj_member_delete_other)
qed

lemma sample_post_authenticated:
  "verifyToken (date_now sample_env) (authorization sample_post) sample_store = (Inr 1, sample_store)"
  by (simp add: verifyToken_def sample_env_def sample_post_def sample_request_def sample_store_def
      startsWith_def)

lemma sample_post_status:
  "status (response_of (handler sample_env sample_post sample_store)) = 201"
proof -
  have "handler sample_env sample_post sample_store = route_post_messages sample_env sample_post sample_store"
    by (rule handler_post_messages) (simp_all add: sample_post_def sample_request_def)
  then show ?thesis
    by (simp add: route_post_messages_def sample_post_authenticated)
      (simp add: sample_post_def sample_request_def sample_env_def obj_member_def addMessage_def
        at_index_def Let_def)
qed

theorem post_message_owner_witness:
  "req_method sample_post = ''POST'' \<and> pathname sample_post = ''/messages'' \<and>
   verifyToken (date_now sample_env) (authorization sample_post) sample_store = (Inr 1, sample_store) \<and>
   payload sample_post = Inr (JObj [(''body'', JStr ''hi''), (''user_id'', JNum 999)]) \<and>
   status (response_of (handler sample_env sample_post sample_store)) = 201 \<and>
   (\<exists>v. queries_of (handler sample_env sample_post sample_store) = [InsertMessage v] \<and>
        ins_user_id v = Some (JNum 1)) \<and>
   queries_of (handler sample_env sample_post sample_store) =
     queries_of (handler sample_env (sample_post\<lparr>payload := Inr (JObj [(''body'', JStr ''hi'')])\<rparr>)
                   sample_store)"
proof -
  have m: "req_method sample_post = ''POST''" and p: "pathname sample_post = ''/messages''"
    and b: "payload sample_post = Inr (JObj [(''body'', JStr ''hi''), (''user_id'', JNum 999)])"
    by (simp_all add: sample_post_def sample_request_def)
  note owner = post_message_owner [OF m p sample_post_authenticated]
  from owner [THEN conjunct1] owner [THEN conjunct2, THEN conjunct1] sample_post_status
  have "\<exists>v. queries_of (handler sample_env sample_post sample_store) = [InsertMessage v] \<and>
        ins_user_id v = Some (JNum 1)"
    by auto
  moreover from owner [THEN conjunct2, THEN conjunct2, rule_format, OF b]
  have "queries_of (handler sample_env sample_post sample_store) =
     queries_of (handler sample_env (sample_post\<lparr>payload := Inr (JObj [(''body'', JStr ''hi'')])\<rparr>)
                   sample_store)"
    by simp
  ultimately show ?thesis
    using m p b sample_post_authenticated sample_post_status by simp
qed

text \<open>
  C7. For every POST /messages request answered with 201, the body is an object and
  exactly one INSERT is sent; if the body has no \<^verbatim>\<open>channel\<close> member the inserted channel
  is \<^verbatim>\<open>"general"\<close>, if it has no \<^verbatim>\<open>attachments\<close> member the inserted attachments list is
  empty, and if it has no \<^verbatim>\<open>in_reply_to\<close> member the inserted \<^verbatim>\<open>in_reply_to\<close> is null.
\<close>

theorem post_message_defaults:
  assumes "req_method req = ''POST''" and "pathname req = ''/messages''"
    and "status (response_of (handler e req ts)) = 201"
  shows "\<exists>kvs v. payload req = Inr (JObj kvs) \<and>
           queries_of (handler e req ts) = [InsertMessage v] \<and>
           (''channel'' \<notin> fst ` set kvs \<longrightarrow> ins_channel v = JStr ''general'') \<and>
           (''attachments'' \<notin> fst ` set kvs \<longrightarrow> ins_attachments v = JArr []) \<and>
           (''in_reply_to'' \<notin> fst ` set kvs \<longrightarrow> ins_in_reply_to v = JNull)"
proof -
  have h: "handler e req ts = route_post_messages e req ts"
    using assms(1,2) by (rule handler_post_messages)
  obtain v ts' where vt: "verifyToken (date_now e) (authorization req) ts = (v, ts')"
    by (cases "verifyToken (date_now e) (authorization req) ts")
  show ?thesis
  proof (cases v)
    case (Inl r)
    with vt route_post_messages_unauthenticated [of e req ts r ts'] assms(3) show ?thesis
      unfolding h by simp
  next
    case (Inr uid)
    with vt have auth: "verifyToken (date_now e) (authorization req) ts = (Inr uid, ts')"
      by simp
    from route_post_messages_cases [OF auth] assms(3) obtain kvs where
      body: "payload req = Inr (JObj kvs)" and t: "truthy (obj_member kvs ''body'')"
      unfolding h by auto
    from route_post_messages_insert [OF auth body t] body show ?thesis
      unfolding h by (simp add: obj_member_absent)
  qed
qed

theorem post_message_defaults_witness:
  "req_method sample_post = ''POST'' \<and> pathname sample_post = ''/messages'' \<and>
   status (response_of (handler sample_env sample_post sample_store)) = 201 \<and>
   payload sample_post = Inr (JObj [(''body'', JStr ''hi''), (''user_id'', JNum 999)]) \<and>
   (\<exists>v. queries_of (handler sample_env sample_post sample_store) = [InsertMessage v] \<and>
        ins_channel v = JStr ''general'' \<and> ins_attachments v = JArr [] \<and>
        ins_in_reply_to v = JNull)"
proof -
  have m: "req_method sample_post = ''POST''" and p: "pathname sample_post = ''/messages''"
    and b: "payload sample_post = Inr (JObj [(''body'', JStr ''hi''), (''user_id'', JNum 999)])"
    by (simp_all add: sample_post_def sample_request_def)
  from post_message_defaults [OF m p sample_post_status]
  have "\<exists>v. queries_of (handler sample_env sample_post sample_store) = [InsertMessage v] \<and>
        ins_channel v = JStr ''general'' \<and> ins_attachments v = JArr [] \<and>
        ins_in_reply_to v = JNull"
    unfolding b by auto
  with m p b sample_post_status show ?thesis
    by simp
qed

section \<open>Empty strings in required fields\<close>

lemma route_login_missing:
  assumes "payload req = Inr (JObj kvs)"
    and "\<not> truthy (obj_member kvs ''name'') \<or> \<not> truthy (obj_member kvs ''password'')"
  shows "route_login e req ts = (createResponse (Str ''Missing name or password'') 400, ts, [])"
  using assms by (auto simp: route_login_def)

lemma route_post_users_missing:
  assumes "verifyToken (date_now e) (authorization req) ts = (Inr uid, ts')"
    and "payload req = Inr (JObj kvs)"
    and "\<not> truthy (obj_member kvs ''name'') \<or> \<not> truthy (obj_member kvs ''profile_picture_url'')"
  shows "route_post_users e req ts =
           (createResponse (Str ''Missing name or profile_picture_url'') 400, ts', [])"
  using assms by (auto simp: route_post_users_def)

text \<open>
  C10. An empty string counts as a missing value. For a POST request whose body is an
  object: on /auth/login, \<^verbatim>\<open>name\<close> or \<^verbatim>\<open>password\<close> equal to \<^verbatim>\<open>""\<close> gives 400; on /users,
  for an authenticated caller, \<^verbatim>\<open>name\<close> or \<^verbatim>\<open>profile_picture_url\<close> equal to \<^verbatim>\<open>""\<close> gives
  400; on /messages, for an authenticated caller, \<^verbatim>\<open>body\<close> equal to \<^verbatim>\<open>""\<close> gives 400, and
  with a usable \<^verbatim>\<open>body\<close> a \<^verbatim>\<open>channel\<close> equal to \<^verbatim>\<open>""\<close> inserts the message under
  \<^verbatim>\<open>"general"\<close>.
\<close>

theorem empty_string_counts_as_missing:
  assumes "req_method req = ''POST''" and "payload req = Inr (JObj kvs)"
  shows "(pathname req = ''/auth/login'' \<and>
            (obj_member kvs ''name'' = Some (JStr '''') \<or>
             obj_member kvs ''password'' = Some (JStr '''')) \<longrightarrow>
          status (response_of (handler e req ts)) = 400) \<and>
         (pathname req = ''/users'' \<and>
            (\<exists>uid. fst (verifyToken (date_now e) (authorization req) ts) = Inr uid) \<and>
            (obj_member kvs ''name'' = Some (JStr '''') \<or>
             obj_member kvs ''profile_picture_url'' = Some (JStr '''')) \<longrightarrow>
          status (response_of (handler e req ts)) = 400) \<and>
         (pathname req = ''/messages'' \<and>
            (\<exists>uid. fst (verifyToken (date_now e) (authorization req) ts) = Inr uid) \<and>
            obj_member kvs ''body'' = Some (JStr '''') \<longrightarrow>
          status (response_of (handler e req ts)) = 400) \<and>
         (pathname req = ''/messages'' \<and>
            (\<exists>uid. fst (verifyToken (date_now e) (authorization req) ts) = Inr uid) \<and>
            truthy (obj_member kvs ''body'') \<and>
            obj_member kvs ''channel'' = Some (JStr '''') \<longrightarrow>
          (\<exists>v. queries_of (handler e req ts) = [InsertMessage v] \<and>
               ins_channel v = JStr ''general''))"
proof (intro conjI impI)
  assume a: "pathname req = ''/auth/login'' \<and>
            (obj_member kvs ''name'' = Some (JStr '''') \<or>
             obj_member kvs ''password'' = Some (JStr ''''))"
  then have "\<not> truthy (obj_member kvs ''name'') \<or> \<not> truthy (obj_member kvs ''password'')"
    by auto
  from route_login_missing [OF assms(2) this] a assms(1)
  show "status (response_of (handler e req ts)) = 400"
    by (simp add: handler_login)
next
  assume a: "pathname req = ''/users'' \<and>
            (\<exists>uid. fst (verifyToken (date_now e) (authorization req) ts) = Inr uid) \<and>
            (obj_member kvs ''name'' = Some (JStr '''') \<or>
             obj_member kvs ''profile_picture_url'' = Some (JStr ''''))"
  then obtain uid ts' where auth: "verifyToken (date_now e) (authorization req) ts = (Inr uid, ts')"
    by (cases "verifyToken (date_now e) (authorization req) ts") auto
  from a have "\<not> truthy (obj_member kvs ''name'') \<or>
               \<not> truthy (obj_member kvs ''profile_picture_url'')"
    by auto
  from route_post_users_missing [OF auth assms(2) this] a assms(1)
  show "status (response_of (handler e req ts)) = 400"
    by (simp add: handler_post_users)
next
  assume a: "pathname req = ''/messages'' \<and>
            (\<exists>uid. fst (verifyToken (date_now e) (authorization req) ts) = Inr uid) \<and>
            obj_member kvs ''body'' = Some (JStr '''')"
  then obtain uid ts' where auth: "verifyToken (date_now e) (authorization req) ts = (Inr uid, ts')"
    by (cases "verifyToken (date_now e) (authorization req) ts") auto
  from a have "\<not> truthy (obj_member kvs ''body'')"
    by simp
  from route_post_messages_no_insert [OF auth assms(2) this] a assms(1)
  show "status (response_of (handler e req ts)) = 400"
    by (simp add: handler_post_messages)
next
  assume a: "pathname req = ''/messages'' \<and>
            (\<exists>uid. fst (verifyToken (date_now e) (authorization req) ts) = Inr uid) \<and>
            truthy (obj_member kvs ''body'') \<and>
            obj_member kvs ''channel'' = Some (JStr '''')"
  then obtain uid ts' where auth: "verifyToken (date_now e) (authorization req) ts = (Inr uid, ts')"
    by (cases "verifyToken (date_now e) (authorization req) ts") auto
  from a have t: "truthy (obj_member kvs ''body'')"
    by simp
  from route_post_messages_insert [OF auth assms(2) t] a assms(1)
  show "\<exists>v. queries_of (handler e req ts) = [InsertMessage v] \<and> ins_channel v = JStr ''general''"
    by (simp add: handler_post_messages)
qed

theorem empty_string_counts_as_missing_witness:
  "status (response_of (handler sample_env login_blank_name sample_store)) = 400 \<and>
   status (response_of (handler sample_env update_blank_url sample_store)) = 400 \<and>
   status (response_of (handler sample_env post_blank_body sample_store)) = 400 \<and>
   (\<exists>v. queries_of (handler sample_env post_blank_channel sample_store) = [InsertMessage v] \<and>
        ins_channel v = JStr ''general'')"
proof -
  have 1: "status (response_of (handler sample_env login_blank_name sample_store)) = 400"
    using empty_string_counts_as_missing
      [of login_blank_name
        "[(''name'', JStr ''''), (''password'', JStr ''x'')]" sample_env sample_store]
    by (simp add: login_blank_name_def sample_request_def obj_member_def verifyToken_def sample_env_def
        sample_store_def startsWith_def)
  have 2: "status (response_of (handler sample_env update_blank_url sample_store)) = 400"
    using empty_string_counts_as_missing
      [of update_blank_url
        "[(''name'', JStr ''bob''), (''profile_picture_url'', JStr '''')]" sample_env sample_store]
    by (simp add: update_blank_url_def sample_request_def obj_member_def verifyToken_def sample_env_def
        sample_store_def startsWith_def)
  have 3: "status (response_of (handler sample_env post_blank_body sample_store)) = 400"
    using empty_string_counts_as_missing
      [of post_blank_body
        "[(''body'', JStr '''')]" sample_env sample_store]
    by (simp add: post_blank_body_def sample_request_def obj_member_def verifyToken_def sample_env_def
        sample_store_def startsWith_def)
  have 4: "\<exists>v. queries_of (handler sample_env post_blank_channel sample_store) = [InsertMessage v] \<and>
        ins_channel v = JStr ''general''"
    using empty_string_counts_as_missing
      [of post_blank_channel
        "[(''body'', JStr ''hi''), (''channel'', JStr '''')]" sample_env sample_store]
    by (simp add: post_blank_channel_def sample_request_def obj_member_def verifyToken_def sample_env_def
        sample_store_def startsWith_def)
  from 1 2 3 4 show ?thesis by simp
qed

section \<open>The channel route\<close>

lemma js_split_head: "\<exists>ps. js_split s c = takeWhile (\<lambda>x. x \<noteq> c) s # ps"
  by (induction s) (auto split: list.splits)

lemma js_split_channel_path:
  "js_split (''/messages/channel/'' @ r) CHR ''/'' =
     [] # ''messages'' # ''channel'' # js_split r CHR ''/''"
  by simp

lemma channel_segment:
  "at_index (js_split (''/messages/channel/'' @ r) CHR ''/'') 3 =
     Some (takeWhile (\<lambda>c. c \<noteq> CHR ''/'') r)"
proof -
  obtain ps where "js_split r CHR ''/'' = takeWhile (\<lambda>c. c \<noteq> CHR ''/'') r # ps"
    using js_split_head by blast
  then show ?thesis
    unfolding js_split_channel_path by (simp add: at_index_def)
qed

lemma startsWith_split: "startsWith s p \<Longrightarrow> s = p @ drop (length p) s"
  unfolding startsWith_def by (metis append_take_drop_id)

lemma route_get_channel_messages_eq:
  assumes "pathname req = ''/messages/channel/'' @ r"
  shows "route_get_channel_messages e req ts =
     (let ch = takeWhile (\<lambda>c. c \<noteq> CHR ''/'') r in
      if ch = [] then (createResponse (Str ''Channel not specified'') 400, ts, [])
      else
        (case decodeURIComponent e ch of
           None \<Rightarrow> (createResponse (Str ''Server error retrieving channel messages'') 500, ts, [])
         | Some decoded \<Rightarrow>
             (case sql_messages e (SelectMessagesByChannel decoded) of
                Inl m \<Rightarrow>
                  (createResponse (Str ''Server error retrieving channel messages'') 500, ts,
                   [SelectMessagesByChannel decoded])
              | Inr messages \<Rightarrow>
                  (createResponse (Obj (JArr messages)) 200, ts,
                   [SelectMessagesByChannel decoded]))))"
  unfolding route_get_channel_messages_def assms channel_segment getMessagesByChannel_def
  by (simp add: Let_def split: option.splits sum.splits)

text \<open>
  C8 (as amended). The route GET /messages/channel/\{channel\} answers every GET path
  that starts with \<^verbatim>\<open>/messages/channel/\<close>. The channel is the text after that prefix up to
  the next slash or the end of the path; an empty channel gives 400, otherwise the
  decoded channel is looked up. Segments after the channel are ignored: the request is
  answered exactly like the request for the path cut after the channel segment.
\<close>

theorem channel_route_matches_by_prefix:
  assumes "req_method req = ''GET''" and "startsWith (pathname req) ''/messages/channel/''"
  shows "handler e req ts =
     (let ch = takeWhile (\<lambda>c. c \<noteq> CHR ''/'') (drop (length ''/messages/channel/'') (pathname req)) in
      if ch = [] then (createResponse (Str ''Channel not specified'') 400, ts, [])
      else
        (case decodeURIComponent e ch of
           None \<Rightarrow> (createResponse (Str ''Server error retrieving channel messages'') 500, ts, [])
         | Some decoded \<Rightarrow>
             (case sql_messages e (SelectMessagesByChannel decoded) of
                Inl m \<Rightarrow>
                  (createResponse (Str ''Server error retrieving channel messages'') 500, ts,
                   [SelectMessagesByChannel decoded])
              | Inr messages \<Rightarrow>
                  (createResponse (Obj (JArr messages)) 200, ts,
                   [SelectMessagesByChannel decoded])))) \<and>
     handler e req ts =
       handler e
         (req\<lparr>pathname :=
                ''/messages/channel/'' @
                takeWhile (\<lambda>c. c \<noteq> CHR ''/'') (drop (length ''/messages/channel/'') (pathname req))\<rparr>)
         ts"
proof -
  let ?r = "drop (length ''/messages/channel/'') (pathname req)"
  let ?ch = "takeWhile (\<lambda>c. c \<noteq> CHR ''/'') ?r"
  let ?req' = "req\<lparr>pathname := ''/messages/channel/'' @ ?ch\<rparr>"
  have path: "pathname req = ''/messages/channel/'' @ ?r"
    by (rule startsWith_split [OF assms(2)])
  have path': "pathname ?req' = ''/messages/channel/'' @ ?ch"
    by simp
  have h: "handler e req ts = route_get_channel_messages e req ts"
    by (rule handler_get_channel_messages [OF assms])
  have h': "handler e ?req' ts = route_get_channel_messages e ?req' ts"
    by (rule handler_get_channel_messages) (simp_all add: assms(1) startsWith_def)
  have idem: "takeWhile (\<lambda>c. c \<noteq> CHR ''/'') ?ch = ?ch"
    by simp
  have first: "handler e req ts =
     (let ch = ?ch in
      if ch = [] then (createResponse (Str ''Channel not specified'') 400, ts, [])
      else
        (case decodeURIComponent e ch of
           None \<Rightarrow> (createResponse (Str ''Server error retrieving channel messages'') 500, ts, [])
         | Some decoded \<Rightarrow>
             (case sql_messages e (SelectMessagesByChannel decoded) of
                Inl m \<Rightarrow>
                  (createResponse (Str ''Server error retrieving channel messages'') 500, ts,
                   [SelectMessagesByChannel decoded])
              | Inr messages \<Rightarrow>
                  (createResponse (Obj (JArr messages)) 200, ts,
                   [SelectMessagesByChannel decoded]))))"
    unfolding h by (rule route_get_channel_messages_eq [OF path])
  have second: "handler e req ts = handler e ?req' ts"
    unfolding h h' route_get_channel_messages_eq [OF path]
      route_get_channel_messages_eq [OF path'] idem ..
  from first second show ?thesis
    by (rule conjI)
qed

theorem channel_route_matches_by_prefix_witness:
  "req_method (sample_request ''GET'' ''/messages/channel/a/b'' None JNull) = ''GET'' \<and>
   startsWith (pathname (sample_request ''GET'' ''/messages/channel/a/b'' None JNull))
     ''/messages/channel/'' \<and>
   handler sample_env (sample_request ''GET'' ''/messages/channel/a/b'' None JNull) sample_store =
     (createResponse (Obj (JArr [JObj [(''id'', JNum 12)]])) 200, sample_store,
      [SelectMessagesByChannel ''a''])"
proof -
  have m: "req_method (sample_request ''GET'' ''/messages/channel/a/b'' None JNull) = ''GET''"
    by (simp add: sample_request_def)
  have p: "startsWith (pathname (sample_request ''GET'' ''/messages/channel/a/b'' None JNull))
     ''/messages/channel/''"
    by (simp add: sample_request_def startsWith_def)
  from channel_route_matches_by_prefix [OF m p, of sample_env sample_store, THEN conjunct1] m p
  show ?thesis
    by (simp add: sample_request_def sample_env_def)
qed

text \<open>
  The claim as first stated fails: the path \<^verbatim>\<open>/messages/channel/a/b\<close>, with a segment
  after the channel, is answered by the channel route with the messages of channel
  \<^verbatim>\<open>a\<close>, not by the routing miss.
\<close>

theorem trailing_segments_still_match_channel_route:
  "status (response_of
     (handler sample_env (sample_request ''GET'' ''/messages/channel/a/b'' None JNull) sample_store))
     = 200 \<and>
   queries_of
     (handler sample_env (sample_request ''GET'' ''/messages/channel/a/b'' None JNull) sample_store)
     = [SelectMessagesByChannel ''a''] \<and>
   handler sample_env (sample_request ''GET'' ''/messages/channel/a/b'' None JNull) sample_store
     \<noteq> (createResponse (Str ''Not found'') 404, sample_store, [])"
  by (simp add: handler_def route_get_channel_messages_def getMessagesByChannel_def
      sample_request_def sample_env_def startsWith_def at_index_def createResponse_def)

section \<open>Routing miss\<close>

text \<open>
  Every exact route of the specification's table is a route test of the handler, with
  the same method and the same path.
\<close>

lemma spec_table_exact_routes:
  "req_method req = ''OPTIONS'' \<Longrightarrow> spec_matches_route req"
  "req_method req = ''POST'' \<Longrightarrow> pathname req = ''/auth/login'' \<Longrightarrow> spec_matches_route req"
  "req_method req = ''GET'' \<Longrightarrow> pathname req = ''/users'' \<Longrightarrow> spec_matches_route req"
  "req_method req = ''POST'' \<Longrightarrow> pathname req = ''/users'' \<Longrightarrow> spec_matches_route req"
  "req_method req = ''GET'' \<Longrightarrow> pathname req = ''/messages'' \<Longrightarrow> spec_matches_route req"
  "req_method req = ''POST'' \<Longrightarrow> pathname req = ''/messages'' \<Longrightarrow> spec_matches_route req"
  "req_method req = ''GET'' \<Longrightarrow> pathname req = ''/channels'' \<Longrightarrow> spec_matches_route req"
  "req_method req = ''GET'' \<Longrightarrow> pathname req = ''/'' \<Longrightarrow> spec_matches_route req"
  by (simp_all add: spec_matches_route_def spec_dispatch_table_def pattern_def)

lemma js_split_single: "(js_split s c = [x]) = (c \<notin> set s \<and> x = s)"
proof (induction s arbitrary: x)
  case Nil
  show ?case by auto
next
  case (Cons a s)
  show ?case
  proof (cases "a = c")
    case True
    obtain ps where "js_split s c = takeWhile (\<lambda>y. y \<noteq> c) s # ps"
      using js_split_head by blast
    with True show ?thesis by simp
  next
    case False
    obtain p ps where ps: "js_split s c = p # ps"
      using js_split_head by blast
    with False Cons.IH [of p] Cons.IH [of s] show ?thesis
      by auto
  qed
qed

text \<open>On the paths of the channel route, the table and the handler differ exactly here.\<close>

lemma spec_table_channel_route:
  assumes "req_method req = ''GET''" and "pathname req = ''/messages/channel/'' @ r"
  shows "spec_matches_route req = (r \<noteq> [] \<and> CHR ''/'' \<notin> set r)"
proof -
  have "spec_matches_route req = list_all2 segment_matches [Param] (js_split r CHR ''/'')"
    unfolding spec_matches_route_def spec_dispatch_table_def pattern_def assms
      js_split_channel_path
    by simp
  also have "\<dots> = (\<exists>x. js_split r CHR ''/'' = [x] \<and> x \<noteq> [])"
    by (auto simp: list_all2_Cons1)
  also have "\<dots> = (r \<noteq> [] \<and> CHR ''/'' \<notin> set r)"
    unfolding js_split_single by auto
  finally show ?thesis .
qed

lemma status_route_get_channel_messages:
  "status (response_of (route_get_channel_messages e req ts)) \<in> {200, 400, 500}"
  unfolding route_get_channel_messages_def
  by (simp split: sum.splits option.splits prod.splits)

text \<open>
  C5 (as amended). For every request whose method and path match no route of the
  specification's table: unless it is a GET whose path starts with
  \<^verbatim>\<open>/messages/channel/\<close>, the response has status 404 and the text body ``Not found'', the
  registry is unchanged and no statement reaches the database. A GET whose path starts
  with \<^verbatim>\<open>/messages/channel/\<close> and matches no route of the table (its channel segment is
  empty, or further segments follow it) is answered by the channel route, with status
  200, 400 or 500.
\<close>

theorem unmatched_route_not_found:
  assumes "\<not> spec_matches_route req"
  shows "(\<not> (req_method req = ''GET'' \<and> startsWith (pathname req) ''/messages/channel/'') \<longrightarrow>
            handler e req ts = (createResponse (Str ''Not found'') 404, ts, []) \<and>
            status (response_of (handler e req ts)) = 404 \<and>
            body (response_of (handler e req ts)) = Text ''Not found'') \<and>
         (req_method req = ''GET'' \<and> startsWith (pathname req) ''/messages/channel/'' \<longrightarrow>
            handler e req ts = route_get_channel_messages e req ts \<and>
            status (response_of (handler e req ts)) \<in> {200, 400, 500} \<and>
            (drop (length ''/messages/channel/'') (pathname req) = [] \<or>
             CHR ''/'' \<in> set (drop (length ''/messages/channel/'') (pathname req))))"
proof (intro conjI impI)
  assume other: "\<not> (req_method req = ''GET'' \<and> startsWith (pathname req) ''/messages/channel/'')"
  from assms have
    "req_method req \<noteq> ''OPTIONS''"
    "\<not> (req_method req = ''POST'' \<and> pathname req = ''/auth/login'')"
    "\<not> (req_method req = ''GET'' \<and> pathname req = ''/users'')"
    "\<not> (req_method req = ''POST'' \<and> pathname req = ''/users'')"
    "\<not> (req_method req = ''GET'' \<and> pathname req = ''/messages'')"
    "\<not> (req_method req = ''POST'' \<and> pathname req = ''/messages'')"
    "\<not> (req_method req = ''GET'' \<and> pathname req = ''/channels'')"
    "\<not> (req_method req = ''GET'' \<and> pathname req = ''/'')"
    using spec_table_exact_routes [of req] by blast+
  with other have miss: "handler e req ts = (createResponse (Str ''Not found'') 404, ts, [])"
    unfolding handler_def Let_def by (simp only: if_False)
  then show "handler e req ts = (createResponse (Str ''Not found'') 404, ts, [])"
    and "status (response_of (handler e req ts)) = 404"
    and "body (response_of (handler e req ts)) = Text ''Not found''"
    by simp_all
next
  assume ch: "req_method req = ''GET'' \<and> startsWith (pathname req) ''/messages/channel/''"
  then have h: "handler e req ts = route_get_channel_messages e req ts"
    by (simp add: handler_get_channel_messages)
  then show "handler e req ts = route_get_channel_messages e req ts" .
  from h show "status (response_of (handler e req ts)) \<in> {200, 400, 500}"
    using status_route_get_channel_messages [of e req ts] by simp
  from ch have path:
    "pathname req = ''/messages/channel/'' @ drop (length ''/messages/channel/'') (pathname req)"
    by (intro startsWith_split) simp
  from assms ch spec_table_channel_route [OF _ path]
  show "drop (length ''/messages/channel/'') (pathname req) = [] \<or>
        CHR ''/'' \<in> set (drop (length ''/messages/channel/'') (pathname req))"
    by blast
qed

theorem unmatched_route_not_found_witness:
  "\<not> spec_matches_route (sample_request ''DELETE'' ''/users'' None JNull) \<and>
   status (response_of (handler sample_env (sample_request ''DELETE'' ''/users'' None JNull) sample_store))
     = 404 \<and>
   body (response_of (handler sample_env (sample_request ''DELETE'' ''/users'' None JNull) sample_store))
     = Text ''Not found'' \<and>
   \<not> spec_matches_route (sample_request ''GET'' ''/messages/channel/'' None JNull) \<and>
   handler sample_env (sample_request ''GET'' ''/messages/channel/'' None JNull) sample_store =
     route_get_channel_messages sample_env (sample_request ''GET'' ''/messages/channel/'' None JNull)
       sample_store"
proof -
  have h1: "\<not> spec_matches_route (sample_request ''DELETE'' ''/users'' None JNull)"
    by (simp add: spec_matches_route_def spec_dispatch_table_def sample_request_def)
  have h2: "\<not> spec_matches_route (sample_request ''GET'' ''/messages/channel/'' None JNull)"
    by (simp add: spec_matches_route_def spec_dispatch_table_def pattern_def sample_request_def)
  from unmatched_route_not_found [OF h1, of sample_env sample_store, THEN conjunct1]
  have 1: "status (response_of
             (handler sample_env (sample_request ''DELETE'' ''/users'' None JNull) sample_store)) = 404 \<and>
           body (response_of
             (handler sample_env (sample_request ''DELETE'' ''/users'' None JNull) sample_store))
             = Text ''Not found''"
    by (simp add: sample_request_def)
  from unmatched_route_not_found [OF h2, of sample_env sample_store, THEN conjunct2]
  have 2: "handler sample_env (sample_request ''GET'' ''/messages/channel/'' None JNull) sample_store =
     route_get_channel_messages sample_env (sample_request ''GET'' ''/messages/channel/'' None JNull)
       sample_store"
    by (simp add: sample_request_def startsWith_def)
  from h1 h2 1 2 show ?thesis by simp
qed

text \<open>
  The claim as first stated fails: the path \<^verbatim>\<open>/messages/channel/general/extra\<close> matches
  no route of the specification's table, and the handler answers it with status 200
  and the messages of channel \<^verbatim>\<open>general\<close>.
\<close>

theorem unmatched_channel_path_is_answered:
  "\<not> spec_matches_route (sample_request ''GET'' ''/messages/channel/general/extra'' None JNull) \<and>
   status (response_of
     (handler sample_env (sample_request ''GET'' ''/messages/channel/general/extra'' None JNull)
        sample_store)) = 200 \<and>
   body (response_of
     (handler sample_env (sample_request ''GET'' ''/messages/channel/general/extra'' None JNull)
        sample_store)) \<noteq> Text ''Not found'' \<and>
   queries_of
     (handler sample_env (sample_request ''GET'' ''/messages/channel/general/extra'' None JNull)
        sample_store) = [SelectMessagesByChannel ''general'']"
  by (simp add: spec_matches_route_def spec_dispatch_table_def pattern_def handler_def
      route_get_channel_messages_def getMessagesByChannel_def sample_request_def sample_env_def
      startsWith_def at_index_def createResponse_def)

section \<open>The registry holds each token once\<close>

text \<open>
  The handler keeps the registry well-formed: every step is a \<^verbatim>\<open>set\<close> or a \<^verbatim>\<open>delete\<close> of
  one key, so the hypothesis of the sweep theorem holds in every reachable state.
\<close>

lemma wf_store_verifyToken:
  assumes "wf_store ts"
  shows "wf_store (snd (verifyToken now a ts))"
  using assms unfolding verifyToken_def
  by (auto simp: Let_def wf_store_delete split: option.splits)

lemma store_route_post_users:
  "store_of (route_post_users e req ts) = snd (verifyToken (date_now e) (authorization req) ts)"
  unfolding route_post_users_def
  by (simp add: Let_def split: sum.splits prod.splits)

lemma store_route_post_messages:
  "store_of (route_post_messages e req ts) = snd (verifyToken (date_now e) (authorization req) ts)"
  unfolding route_post_messages_def
  by (simp split: sum.splits prod.splits option.splits)

lemma store_route_login:
  "store_of (route_login e req ts) = ts \<or>
   (\<exists>d::session. store_of (route_login e req ts) = AList.update (randomUUID e) d ts)"
  unfolding route_login_def
  by (auto simp: Let_def split: sum.splits prod.splits option.splits)

lemma store_unauthenticated_routes:
  "store_of (route_options ts) = ts"
  "store_of (route_get_users e ts) = ts"
  "store_of (route_get_messages e ts) = ts"
  "store_of (route_get_channel_messages e req ts) = ts"
  "store_of (route_get_channels e ts) = ts"
  "store_of (route_root ts) = ts"
  unfolding route_options_def route_get_users_def route_get_messages_def
    route_get_channel_messages_def route_get_channels_def route_root_def
  by (simp_all split: sum.splits prod.splits option.splits)

lemma wf_store_handler:
  assumes "wf_store ts"
  shows "wf_store (store_of (handler e req ts))"
proof -
  have login: "wf_store (store_of (route_login e req ts))"
    using store_route_login [of e req ts] assms by (auto simp: wf_store_update)
  have gate: "wf_store (snd (verifyToken (date_now e) (authorization req) ts))"
    using assms by (rule wf_store_verifyToken)
  show ?thesis
    unfolding handler_def Let_def
    using assms login gate
    by (simp only: store_route_post_users store_route_post_messages store_unauthenticated_routes
        outcome_sel if_distrib [of store_of] if_distrib [of wf_store] if_cancel split: if_splits)
qed

section \<open>Where the earlier variant differs\<close>

text \<open>
  In the earlier variant a routing miss answers 400, and the rejections of the
  access-control gate carry no cross-origin header.
\<close>

lemma earlier_routing_miss:
  assumes "req_method req \<noteq> ''GET''" and "req_method req \<noteq> ''POST''"
  shows "handler_earlier e req ts = (plain_response ''Not found'' 400, ts, [])"
  using assms by (simp add: handler_earlier_def)

lemma earlier_routing_miss_status:
  "status (response_of
     (handler_earlier sample_env (sample_request ''DELETE'' ''/users'' None JNull) sample_store)) = 400"
  by (simp add: handler_earlier_def sample_request_def plain_response_def)

lemma earlier_rejection_has_no_cors_header:
  assumes "req_method req = ''POST''" and "pathname req = ''/users'' \<or> pathname req = ''/messages''"
    and "authorization req = None"
  shows "status (response_of (handler_earlier e req ts)) = 401"
    and "header_value (response_of (handler_earlier e req ts)) ''Access-Control-Allow-Origin'' = None"
  using assms
  by (auto simp: handler_earlier_def startsWith_def earlier_post_users_def earlier_post_messages_def
      verifyToken_earlier_def plain_response_def header_value_def)

end
